theory Spec2Isabelle
  imports
    Main
    "HOL-Library.Word"
    "HOL-Library.AList"
    "HOL-Library.Char_ord"
    "HOL-Library.List_Lexorder"
begin

section \<open>Constants (constant.go)\<close>

text \<open>
  \<^verbatim>\<open>type Method string\<close>: any string can be converted to a method, so the type is
  \<open>string\<close> and the four constants are definitions. \<^verbatim>\<open>time.Duration\<close> is an \<open>int64\<close>
  counting nanoseconds; its multiplication wraps around.
\<close>

type_synonym Method = string
type_synonym Duration = "64 word"

definition Second :: Duration where
  "Second = 1000000000"

definition DefaultTimeOut :: Duration where
  "DefaultTimeOut = 3 * Second"

definition MethodPost :: Method where
  "MethodPost = ''POST''"

definition MethodGet :: Method where
  "MethodGet = ''GET''"

definition MethodPut :: Method where
  "MethodPut = ''PUT''"

definition MethodDelete :: Method where
  "MethodDelete = ''DELETE''"

section \<open>Errors and maps of the host language\<close>

text \<open>
  An error value is either built without a cause (\<^verbatim>\<open>fmt.Errorf\<close> with no \<^verbatim>\<open>%w\<close>, or
  an error handed back by a collaborator) or wraps a cause (\<^verbatim>\<open>fmt.Errorf("... %w", e)\<close>).
  The message of a wrapping error is the text of the format string up to the \<^verbatim>\<open>%w\<close>
  verb; the other arguments (\<^verbatim>\<open>%v\<close>, \<^verbatim>\<open>%s\<close>) are not rendered.
\<close>

datatype error = Errorf string | Wrapf string error

fun Error_text :: "error \<Rightarrow> string" where
  "Error_text (Errorf s) = s"
| "Error_text (Wrapf s e) = s @ Error_text e"

text \<open>
  A map of the host language is \<^verbatim>\<open>nil\<close> (\<open>None\<close>) or a table with pairwise different
  keys. The table is an association list; its order stands for one of the orders in which
  \<^verbatim>\<open>range\<close> may visit the entries.
\<close>

type_synonym 'b gomap = "(string \<times> 'b) list option"

fun entries :: "'b gomap \<Rightarrow> (string \<times> 'b) list" where
  "entries None = []"
| "entries (Some kvs) = kvs"

text \<open>
  \<^verbatim>\<open>for key, val := range src { dst[key] = val }\<close>. Ranging over a \<^verbatim>\<open>nil\<close> map runs
  no iteration; an assignment to an entry of a \<^verbatim>\<open>nil\<close> map panics (\<open>None\<close>).
\<close>

definition assign_all :: "'b gomap \<Rightarrow> 'b gomap \<Rightarrow> 'b gomap option" where
  "assign_all src dst =
     (case entries src of
        [] \<Rightarrow> Some dst
      | kv # kvs \<Rightarrow>
          (case dst of
             None \<Rightarrow> None
           | Some d \<Rightarrow> Some (Some (fold (\<lambda>(k, v). AList.update k v) (kv # kvs) d))))"

section \<open>The configuration record (option.go)\<close>

record tls_Config =
  InsecureSkipVerify :: bool

text \<open>
  The logger and the response slot are references owned by the caller; they are
  identified by a handle. The calls to the logger (\<^verbatim>\<open>ILogger\<close>, declared in another file
  of the package) only print a trace line and are left out of the model.
\<close>

type_synonym ILogger = nat
type_synonym Response_ptr = nat

record 'v parameter_fields =
  url :: string
  method_f :: Method
  timeout :: Duration
  header :: "string gomap"
  param :: "'v gomap"
  body :: "string option"
  tLSClientConfig :: "tls_Config option"
  log :: "ILogger option"
  deleteUriFlag :: bool
  response :: "Response_ptr option"

text \<open>
  The field \<^verbatim>\<open>method\<close> is written \<open>method_f\<close>.
  \<^verbatim>\<open>beforeRequest []func(r *parameter) error\<close>. A hook mutates the record and may
  return an error; it is a function from the fields of the record to an optional error
  and the fields it leaves behind. (A record cannot hold functions on itself, so a hook
  sees every field but the hook list.)
\<close>

type_synonym 'v hook = "'v parameter_fields \<Rightarrow> error option \<times> 'v parameter_fields"

record 'v parameter = "'v parameter_fields" +
  beforeRequest :: "'v hook list"

definition fields_of :: "'v parameter \<Rightarrow> 'v parameter_fields" where
  "fields_of r =
     \<lparr>url = url r, method_f = method_f r, timeout = timeout r, header = header r,
      param = param r, body = body r, tLSClientConfig = tLSClientConfig r,
      log = log r, deleteUriFlag = deleteUriFlag r, response = response r\<rparr>"

definition store_fields :: "'v parameter_fields \<Rightarrow> 'v parameter \<Rightarrow> 'v parameter" where
  "store_fields f r =
     \<lparr>url = url f, method_f = method_f f, timeout = timeout f, header = header f,
      param = param f, body = body f, tLSClientConfig = tLSClientConfig f,
      log = log f, deleteUriFlag = deleteUriFlag f, response = response f,
      beforeRequest = beforeRequest r\<rparr>"

definition SetBody :: "string option \<Rightarrow> 'v parameter_fields \<Rightarrow> 'v parameter_fields" where
  "SetBody b p = p\<lparr>body := b\<rparr>"

text \<open>
  \<^verbatim>\<open>type optionFunc func(*parameter)\<close>: an option mutates the record; \<open>None\<close> is a
  panic of the mutation.
\<close>

type_synonym 'v optionFunc = "'v parameter \<Rightarrow> 'v parameter option"

definition WithUrl :: "string \<Rightarrow> 'v optionFunc" where
  "WithUrl u = (\<lambda>r. Some (r\<lparr>url := u\<rparr>))"

definition WithMethod :: "Method \<Rightarrow> 'v optionFunc" where
  "WithMethod m = (\<lambda>r. Some (r\<lparr>method_f := m\<rparr>))"


definition WithParam :: "'v gomap \<Rightarrow> 'v optionFunc" where
  "WithParam params = (\<lambda>r.
     case assign_all params (param r) of
       None \<Rightarrow> None
     | Some m \<Rightarrow> Some (r\<lparr>param := m\<rparr>))"


definition WithBeforeRequest :: "'v hook \<Rightarrow> 'v optionFunc" where
  "WithBeforeRequest preDeal = (\<lambda>r. Some (r\<lparr>beforeRequest := beforeRequest r @ [preDeal]\<rparr>))"




definition WithDeleteURIFlag :: "bool \<Rightarrow> 'v optionFunc" where
  "WithDeleteURIFlag flag = (\<lambda>r. Some (r\<lparr>deleteUriFlag := flag\<rparr>))"

section \<open>Collaborators of the host platform\<close>

subsection \<open>Query strings (net/url)\<close>

text \<open>
  \<^verbatim>\<open>url.Values\<close> is a map from a key to the list of its values. \<^verbatim>\<open>Add\<close> appends a
  value to the list of its key. \<^verbatim>\<open>Encode\<close> visits the keys in sorted order and writes
  \<^verbatim>\<open>key=value\<close> for every value, both escaped, with \<^verbatim>\<open>&\<close> between two pairs.
  \<^verbatim>\<open>QueryEscape\<close> keeps letters, digits and \<^verbatim>\<open>- _ . ~\<close>, writes a space as \<^verbatim>\<open>+\<close> and
  every other byte as \<^verbatim>\<open>%XX\<close> in upper-case hexadecimal.
\<close>

type_synonym Values = "(string \<times> string list) list"

fun Values_Add :: "string \<Rightarrow> string \<Rightarrow> Values \<Rightarrow> Values" where
  "Values_Add k v [] = [(k, [v])]"
| "Values_Add k v ((k', vs) # rest) =
     (if k' = k then (k', vs @ [v]) # rest else (k', vs) # Values_Add k v rest)"

definition isAlnum :: "char \<Rightarrow> bool" where
  "isAlnum c \<longleftrightarrow>
     (CHR ''a'' \<le> c \<and> c \<le> CHR ''z'') \<or> (CHR ''A'' \<le> c \<and> c \<le> CHR ''Z'') \<or>
     (CHR ''0'' \<le> c \<and> c \<le> CHR ''9'')"

definition shouldEscape :: "char \<Rightarrow> bool" where
  "shouldEscape c \<longleftrightarrow> \<not> (isAlnum c \<or> c \<in> set ''-_.~'')"

definition upperhex :: string where
  "upperhex = ''0123456789ABCDEF''"

definition escape_byte :: "char \<Rightarrow> string" where
  "escape_byte c =
     (if c = CHR '' '' then ''+''
      else if shouldEscape c
        then [CHR ''%'', upperhex ! (of_char c div 16), upperhex ! (of_char c mod 16)]
        else [c])"

definition QueryEscape :: "string \<Rightarrow> string" where
  "QueryEscape s = concat (map escape_byte s)"

definition write_pair :: "string \<Rightarrow> string \<Rightarrow> string \<Rightarrow> string" where
  "write_pair keyEscaped v buf =
     (if buf \<noteq> [] then buf @ ''&'' else buf) @ keyEscaped @ ''='' @ QueryEscape v"

definition Values_Encode :: "Values \<Rightarrow> string" where
  "Values_Encode v =
     fold (\<lambda>k buf. fold (write_pair (QueryEscape k)) (concat (map snd (filter (\<lambda>e. fst e = k) v))) buf)
          (sort (remdups (map fst v))) []"

text \<open>
  The query string in the words of the specification, to compare \<open>Values_Encode\<close>
  with: the entries sorted by key, each written as the escaped key, \<^verbatim>\<open>=\<close> and the
  escaped value, joined with \<^verbatim>\<open>&\<close>.
\<close>

fun join :: "string \<Rightarrow> string list \<Rightarrow> string" where
  "join sep [] = []"
| "join sep [x] = x"
| "join sep (x # y # xs) = x @ sep @ join sep (y # xs)"

definition sorted_query :: "(string \<times> string) list \<Rightarrow> string" where
  "sorted_query kvs =
     join ''&'' (map (\<lambda>(k, v). QueryEscape k @ ''='' @ QueryEscape v) (sort_key fst kvs))"

text \<open>
  A parsed URL. Of the fields of \<^verbatim>\<open>url.URL\<close> the program writes \<open>RawQuery\<close> only; the
  parser and the printer are collaborators (below).
\<close>

record URL =
  Scheme :: string
  Host :: string
  Path :: string
  ForceQuery :: bool
  RawQuery :: string
  Fragment :: string

subsection \<open>Requests, responses and result targets\<close>

text \<open>
  The header of a request (\<^verbatim>\<open>http.Header\<close>) maps a name to the list of its values.
  \<^verbatim>\<open>Set\<close> stores the one value under the canonical form of the name and replaces what
  was there. The canonical form of a name made of token bytes has its first letter and
  every letter after a hyphen in upper case and the other letters in lower case; a name
  with any other byte is left as it is.
\<close>

type_synonym Header = "(string \<times> string list) list"

definition validHeaderFieldByte :: "char \<Rightarrow> bool" where
  "validHeaderFieldByte c \<longleftrightarrow>
     isAlnum c \<or> c \<in> set (''!#$%&*+-.^_|~'' @ [CHR 0x27, CHR 0x60])"

definition canonical_byte :: "bool \<Rightarrow> char \<Rightarrow> char" where
  "canonical_byte upper c =
     (if upper \<and> CHR ''a'' \<le> c \<and> c \<le> CHR ''z'' then char_of (of_char c - (32 :: nat))
      else if \<not> upper \<and> CHR ''A'' \<le> c \<and> c \<le> CHR ''Z'' then char_of (of_char c + (32 :: nat))
      else c)"

fun canonical :: "bool \<Rightarrow> string \<Rightarrow> string" where
  "canonical upper [] = []"
| "canonical upper (c # cs) =
     canonical_byte upper c # canonical (canonical_byte upper c = CHR ''-'') cs"

definition CanonicalMIMEHeaderKey :: "string \<Rightarrow> string" where
  "CanonicalMIMEHeaderKey s = (if list_all validHeaderFieldByte s then canonical True s else s)"

definition Header_Set :: "string \<Rightarrow> string \<Rightarrow> Header \<Rightarrow> Header" where
  "Header_Set key v h = AList.update (CanonicalMIMEHeaderKey key) [v] h"

record Request =
  req_method :: Method
  req_url :: string
  req_body :: "string option"
  req_header :: Header

text \<open>
  A response body is a stream that is read once: \<open>content\<close> is what is still unread,
  \<open>read_err\<close> the error a read runs into, \<open>close_err\<close> the error \<^verbatim>\<open>Close\<close> returns.
\<close>

record Body =
  content :: string
  read_err :: "error option"
  close_err :: "error option"

record Response =
  StatusCode :: nat
  resp_header :: "(string \<times> string) list"
  resp_Body :: Body

definition ReadAll :: "Body \<Rightarrow> error + (string \<times> Body)" where
  "ReadAll b =
     (case read_err b of
        Some e \<Rightarrow> Inl e
      | None \<Rightarrow> Inr (content b, b\<lparr>content := []\<rparr>))"

definition NopCloser :: "string \<Rightarrow> Body" where
  "NopCloser bytes = \<lparr>content = bytes, read_err = None, close_err = None\<rparr>"

text \<open>
  The \<^verbatim>\<open>result interface{}\<close> of a call, as far as \<^verbatim>\<open>reflect\<close> tells its shapes apart:
  the \<^verbatim>\<open>nil\<close> interface, a value that is not a pointer, a \<^verbatim>\<open>nil\<close> pointer, and a
  pointer to an element. The element is of kind \<^verbatim>\<open>String\<close> or of another kind; the flag
  is the answer of \<^verbatim>\<open>CanSet\<close> for the element. (For the element of a pointer that
  arrives in an interface value \<^verbatim>\<open>reflect\<close> answers yes; the flag keeps the branch of
  the source for the answer no.)
\<close>

datatype 'v element = String_val string | Other_val 'v

datatype 'v result = Nil | NonPointer 'v | NilPointer | Pointer bool "'v element"

subsection \<open>The functions the program calls\<close>

text \<open>
  \<open>Strval\<close> is \<^verbatim>\<open>util/transform.Strval\<close> (a package of the repository whose source
  is not among the files modelled here, so nothing is assumed of it), \<open>json_Marshal\<close> is \<^verbatim>\<open>json.Marshal\<close> on a
  parameter map (it sorts the keys, so it is handed the entries sorted by key),
  \<open>url_Parse\<close> and \<open>URL_String\<close> are \<^verbatim>\<open>neturl.Parse\<close> and \<^verbatim>\<open>(*URL).String\<close>,
  \<open>NewRequestWithContext\<close> gives the error of \<^verbatim>\<open>http.NewRequestWithContext\<close> for a
  method and a URL, \<open>client_Do\<close> is \<^verbatim>\<open>client.Do\<close> of a client with the given TLS
  settings and timeout, \<open>json_Valid\<close> and \<open>json_Unmarshal\<close> are \<^verbatim>\<open>json.Valid\<close> and
  \<^verbatim>\<open>json.Unmarshal(bodyByte, &result)\<close>, which may change the target also when it fails.
  The context \<^verbatim>\<open>ctx\<close> of a call is only handed on to \<^verbatim>\<open>http.NewRequestWithContext\<close>;
  what it makes the platform do is part of the behaviour of these functions.
\<close>

record 'v env =
  Strval :: "'v \<Rightarrow> string"
  json_Marshal :: "'v gomap \<Rightarrow> error + string"
  url_Parse :: "string \<Rightarrow> error + URL"
  URL_String :: "URL \<Rightarrow> string"
  NewRequestWithContext :: "Method \<Rightarrow> string \<Rightarrow> error option"
  client_Do :: "tls_Config option \<Rightarrow> Duration \<Rightarrow> Request \<Rightarrow> error + Response"
  json_Valid :: "string \<Rightarrow> bool"
  json_Unmarshal :: "string \<Rightarrow> 'v result \<Rightarrow> error option \<times> 'v result"

definition Marshal :: "'v env \<Rightarrow> 'v gomap \<Rightarrow> error + string" where
  "Marshal E m =
     (case m of
        None \<Rightarrow> json_Marshal E None
      | Some kvs \<Rightarrow> json_Marshal E (Some (sort_key fst kvs)))"

section \<open>The request executor (http.go)\<close>

text \<open>
  \<^verbatim>\<open>New\<close>: a client (\<^verbatim>\<open>entity\<close>) embeds a pointer to its \<^verbatim>\<open>parameter\<close>, made here
  once; the client is identified with that record.
\<close>

definition New :: "'v parameter" where
  "New =
     \<lparr>url = [], method_f = MethodGet, timeout = DefaultTimeOut,
      header = Some [(''Connection'', ''close''), (''Content-Type'', ''application/json'')],
      param = Some [],
      body = None,
      tLSClientConfig = Some \<lparr>InsecureSkipVerify = False\<rparr>,
      log = None, deleteUriFlag = True, response = None,
      beforeRequest = []\<rparr>"

text \<open>
  \<^verbatim>\<open>withOpt\<close> applies the options from left to right to the record of the client. It
  always returns a \<^verbatim>\<open>nil\<close> error, so the error branch of its caller is never taken; a
  panic of an option ends the call.
\<close>

fun withOpt :: "'v parameter \<Rightarrow> 'v optionFunc list \<Rightarrow> 'v parameter option" where
  "withOpt r [] = Some r"
| "withOpt r (opt # opts) = (case opt r of None \<Rightarrow> None | Some r' \<Rightarrow> withOpt r' opts)"

text \<open>
  The loop over \<^verbatim>\<open>r.beforeRequest\<close>: the hooks run in order on the record; the first
  error ends the loop and is wrapped.
\<close>

fun run_hooks :: "'v hook list \<Rightarrow> 'v parameter_fields \<Rightarrow> error option \<times> 'v parameter_fields" where
  "run_hooks [] f = (None, f)"
| "run_hooks (h # hs) f =
     (case h f of
        (Some e, f') \<Rightarrow> (Some (Wrapf ''request callback err, r: %v, '' e), f')
      | (None, f') \<Rightarrow> run_hooks hs f')"

text \<open>
  What a call does to the world outside, in order: building the request, handing it to
  the transport, reading the response body, draining it, closing it.
\<close>

datatype event =
    Ev_NewRequest Method string "string option"
  | Ev_Do Request
  | Ev_ReadAll
  | Ev_Discard
  | Ev_Close

text \<open>
  The result of a call: the error returned, the record of the client as the call leaves
  it, the result target as the call leaves it, the response stored through the response
  slot, and the events.
\<close>

record 'v outcome =
  err :: "error option"
  cfg :: "'v parameter"
  target :: "'v result"
  captured :: "Response option"
  events :: "event list"

text \<open>The part after \<^verbatim>\<open>json.Valid\<close> has said no: the target must point to a string.\<close>

fun set_string :: "string \<Rightarrow> 'v result \<Rightarrow> error option \<times> 'v result" where
  "set_string b (Pointer canSet (String_val s)) =
     (if \<not> canSet then (Some (Errorf ''result can not set''), Pointer canSet (String_val s))
      else (None, Pointer canSet (String_val b)))"
| "set_string b (Pointer canSet (Other_val v)) =
     (Some (Errorf ''result must be a string''), Pointer canSet (Other_val v))"
| "set_string b NilPointer = (Some (Errorf ''result must be a string''), NilPointer)"
| "set_string b (NonPointer v) = (Some (Errorf ''result must be a pointer''), NonPointer v)"
| "set_string b Nil = (Some (Errorf ''result must be a pointer''), Nil)"

definition decode :: "'v env \<Rightarrow> string \<Rightarrow> 'v result \<Rightarrow> error option \<times> 'v result" where
  "decode E bodyByte res =
     (if json_Valid E bodyByte
      then (case json_Unmarshal E bodyByte res of
              (Some e, res') \<Rightarrow> (Some (Wrapf ''request json un err, result: %v, '' e), res')
            | (None, res') \<Rightarrow> (None, res'))
      else set_string bodyByte res)"

text \<open>
  From the response to the return, without the deferred \<^verbatim>\<open>Close\<close>: the error, the
  target, the captured response and the events.
\<close>

definition read_result ::
  "'v env \<Rightarrow> string \<Rightarrow> Body \<Rightarrow> 'v result \<Rightarrow> error option \<times> 'v result \<times> event list" where
  "read_result E bodyByte0 b res =
     (if res = Nil
      then (case ReadAll b of
              Inl e \<Rightarrow> (Some (Wrapf ''resp body clear err, '' e), res, [Ev_Discard])
            | Inr _ \<Rightarrow> (None, res, [Ev_Discard]))
      else (case (if bodyByte0 = [] then ReadAll b else Inr (bodyByte0, b)) of
              Inl e \<Rightarrow> (Some (Wrapf ''request read err, bodyByte: %v, '' e), res, [Ev_ReadAll])
            | Inr (bodyByte, _) \<Rightarrow>
                (let evs = (if bodyByte0 = [] then [Ev_ReadAll] else []) in
                 if bodyByte = [] then (None, res, evs)
                 else (case decode E bodyByte res of (e, res') \<Rightarrow> (e, res', evs)))))"

definition receive ::
  "'v env \<Rightarrow> Response_ptr option \<Rightarrow> Response \<Rightarrow> 'v result
     \<Rightarrow> error option \<times> 'v result \<times> Response option \<times> event list" where
  "receive E slot resp res =
     (case slot of
        None \<Rightarrow>
          (case read_result E [] (resp_Body resp) res of
             (e, res', evs) \<Rightarrow> (e, res', None, evs))
      | Some _ \<Rightarrow>
          (case ReadAll (resp_Body resp) of
             Inl e \<Rightarrow>
               (Some (Wrapf ''request read err, bodyByte: %v, '' e), res, Some resp, [Ev_ReadAll])
           | Inr (bodyByte, b') \<Rightarrow>
               (case read_result E bodyByte b' res of
                  (e, res', evs) \<Rightarrow>
                    (e, res', Some (resp\<lparr>resp_Body := NopCloser bodyByte\<rparr>), Ev_ReadAll # evs))))"

text \<open>
  The deferred function: when \<^verbatim>\<open>Close\<close> fails, the error returned is replaced by one
  that wraps the error of \<^verbatim>\<open>Close\<close> and carries the text of the error it replaces.
\<close>

definition close_body :: "Body \<Rightarrow> error option \<Rightarrow> error option" where
  "close_body b e =
     (case close_err b of
        None \<Rightarrow> e
      | Some closeErr \<Rightarrow>
          (let errStr = (case e of None \<Rightarrow> [] | Some e' \<Rightarrow> ''('' @ Error_text e' @ '')'')
           in Some (Wrapf (''resp body close err, '' @ errStr @ '' '') closeErr)))"

text \<open>
  The request that \<^verbatim>\<open>http.NewRequestWithContext\<close> makes of the method, the URL and the
  body of the record (an empty method stands for \<^verbatim>\<open>GET\<close>), after the loop that sets
  every header of the record on it. The loop visits the entries in the order of the
  table, one of the orders \<^verbatim>\<open>range\<close> may take; two names with the same canonical form
  leave the value of the one visited last.
\<close>

definition build_request :: "'v parameter \<Rightarrow> Request" where
  "build_request r =
     \<lparr>req_method = (if method_f r = [] then ''GET'' else method_f r),
      req_url = url r, req_body = body r,
      req_header = fold (\<lambda>(key, v). Header_Set key v) (entries (header r)) []\<rparr>"

text \<open>From the record the hooks have left to the return.\<close>

definition dispatch :: "'v env \<Rightarrow> 'v parameter \<Rightarrow> 'v result \<Rightarrow> 'v outcome" where
  "dispatch E r res =
     (case NewRequestWithContext E (method_f r) (url r) of
        Some e \<Rightarrow>
          \<lparr>err = Some (Wrapf ''request NewRequestWithContext err, url: %s, body: %s, '' e),
           cfg = r, target = res, captured = None,
           events = [Ev_NewRequest (method_f r) (url r) (body r)]\<rparr>
      | None \<Rightarrow>
          (case client_Do E (tLSClientConfig r) (timeout r) (build_request r) of
             Inl e \<Rightarrow>
               \<lparr>err = Some (Wrapf ''request do err, param: %v, '' e),
                cfg = r, target = res, captured = None,
                events = [Ev_NewRequest (method_f r) (url r) (body r), Ev_Do (build_request r)]\<rparr>
           | Inr resp \<Rightarrow>
               (case receive E (response r) resp res of
                  (e, res', cap, evs) \<Rightarrow>
                    \<lparr>err = close_body (resp_Body resp) e,
                     cfg = r, target = res', captured = cap,
                     events = [Ev_NewRequest (method_f r) (url r) (body r), Ev_Do (build_request r)]
                                @ evs @ [Ev_Close]\<rparr>)))"

text \<open>
  Options, then hooks: the record after both and the error of the hooks, or \<open>None\<close>
  when an option panics.
\<close>

definition prepare ::
  "'v parameter \<Rightarrow> string \<Rightarrow> 'v optionFunc list \<Rightarrow> (error option \<times> 'v parameter) option" where
  "prepare r u opts =
     (case withOpt r (WithUrl u # opts) of
        None \<Rightarrow> None
      | Some r1 \<Rightarrow>
          (case run_hooks (beforeRequest r1) (fields_of r1) of
             (e, f) \<Rightarrow> Some (e, store_fields f r1)))"

definition request ::
  "'v env \<Rightarrow> 'v parameter \<Rightarrow> string \<Rightarrow> 'v result \<Rightarrow> 'v optionFunc list \<Rightarrow> 'v outcome option" where
  "request E r u res opts =
     (case prepare r u opts of
        None \<Rightarrow> None
      | Some (Some e, r2) \<Rightarrow>
          Some \<lparr>err = Some e, cfg = r2, target = res, captured = None, events = []\<rparr>
      | Some (None, r2) \<Rightarrow> Some (dispatch E r2 res))"

section \<open>The facade (http.go)\<close>

text \<open>
  The URL part of the hooks of \<^verbatim>\<open>Get\<close> and \<^verbatim>\<open>Delete\<close>: parse the \<^verbatim>\<open>url\<close> argument
  of the call, add every parameter of the record to fresh \<^verbatim>\<open>Values\<close>, encode them into
  \<open>RawQuery\<close> and store the printed URL in the record.
\<close>

definition query_values :: "'v env \<Rightarrow> 'v gomap \<Rightarrow> Values" where
  "query_values E m = fold (\<lambda>(key, v). Values_Add key (Strval E v)) (entries m) []"

definition rewrite_url :: "'v env \<Rightarrow> string \<Rightarrow> 'v hook" where
  "rewrite_url E u = (\<lambda>r.
     case url_Parse E u of
       Inl e \<Rightarrow> (Some (Wrapf ''get json ma err, param: %s, '' e), r)
     | Inr netUrl \<Rightarrow>
         (None, r\<lparr>url := URL_String E (netUrl\<lparr>RawQuery := Values_Encode (query_values E (param r))\<rparr>)\<rparr>))"

definition Get_hook :: "'v env \<Rightarrow> string \<Rightarrow> 'v hook" where
  "Get_hook E u = rewrite_url E u"

definition body_hook :: "'v env \<Rightarrow> string \<Rightarrow> 'v hook" where
  "body_hook E msg = (\<lambda>r.
     if param r = None then (None, r)
     else (case Marshal E (param r) of
             Inl e \<Rightarrow> (Some (Wrapf msg e), r)
           | Inr data \<Rightarrow> (None, SetBody (Some data) r)))"

definition Post_hook :: "'v env \<Rightarrow> 'v hook" where
  "Post_hook E = body_hook E ''post json ma err, param: %s, ''"

definition Put_hook :: "'v env \<Rightarrow> 'v hook" where
  "Put_hook E = body_hook E ''put json ma err, param: %s, ''"

definition Delete_hook :: "'v env \<Rightarrow> string \<Rightarrow> 'v hook" where
  "Delete_hook E u = (\<lambda>r.
     if param r = None then (None, r)
     else (case Marshal E (param r) of
             Inl e \<Rightarrow> (Some (Wrapf ''post json ma err, param: %s, '' e), r)
           | Inr data \<Rightarrow>
               (let r' = SetBody (Some data) r in
                if deleteUriFlag r' then rewrite_url E u r' else (None, r'))))"

definition Get_opts :: "'v env \<Rightarrow> string \<Rightarrow> 'v optionFunc list \<Rightarrow> 'v optionFunc list" where
  "Get_opts E u opts = opts @ [WithMethod MethodGet, WithBeforeRequest (Get_hook E u)]"

definition Post_opts :: "'v env \<Rightarrow> 'v gomap \<Rightarrow> 'v optionFunc list \<Rightarrow> 'v optionFunc list" where
  "Post_opts E p opts = opts @ [WithMethod MethodPost, WithParam p, WithBeforeRequest (Post_hook E)]"

definition Put_opts :: "'v env \<Rightarrow> 'v gomap \<Rightarrow> 'v optionFunc list \<Rightarrow> 'v optionFunc list" where
  "Put_opts E p opts = opts @ [WithMethod MethodPut, WithParam p, WithBeforeRequest (Put_hook E)]"

definition Delete_opts ::
  "'v env \<Rightarrow> string \<Rightarrow> 'v gomap \<Rightarrow> 'v optionFunc list \<Rightarrow> 'v optionFunc list" where
  "Delete_opts E u p opts =
     opts @ [WithMethod MethodDelete, WithParam p, WithBeforeRequest (Delete_hook E u)]"

text \<open>
  The four methods of a client. The first argument after the collaborators is the
  record of the client (\<^verbatim>\<open>r.parameter\<close>); the record the call leaves behind is \<open>cfg\<close>
  of the outcome, and the next call on the same client starts from it. The functions of
  the package are the same methods on the client \<^verbatim>\<open>defaultHttp\<close>.
\<close>

definition Get ::
  "'v env \<Rightarrow> 'v parameter \<Rightarrow> string \<Rightarrow> 'v result \<Rightarrow> 'v optionFunc list \<Rightarrow> 'v outcome option" where
  "Get E r u res opts = request E r u res (Get_opts E u opts)"

definition Post ::
  "'v env \<Rightarrow> 'v parameter \<Rightarrow> string \<Rightarrow> 'v gomap \<Rightarrow> 'v result \<Rightarrow> 'v optionFunc list
     \<Rightarrow> 'v outcome option" where
  "Post E r u p res opts = request E r u res (Post_opts E p opts)"

definition Put ::
  "'v env \<Rightarrow> 'v parameter \<Rightarrow> string \<Rightarrow> 'v gomap \<Rightarrow> 'v result \<Rightarrow> 'v optionFunc list
     \<Rightarrow> 'v outcome option" where
  "Put E r u p res opts = request E r u res (Put_opts E p opts)"

definition Delete ::
  "'v env \<Rightarrow> 'v parameter \<Rightarrow> string \<Rightarrow> 'v gomap \<Rightarrow> 'v result \<Rightarrow> 'v optionFunc list
     \<Rightarrow> 'v outcome option" where
  "Delete E r u p res opts = request E r u res (Delete_opts E u p opts)"

text \<open>
  Two calls on the same client, one after the other: the second call starts from the
  record the first call has left in the client.
\<close>

definition Get_then_Post ::
  "'v env \<Rightarrow> 'v parameter \<Rightarrow> string \<Rightarrow> string \<Rightarrow> 'v gomap \<Rightarrow> 'v outcome option" where
  "Get_then_Post E r u1 u2 p =
     (case Get E r u1 Nil [] of
        None \<Rightarrow> None
      | Some out1 \<Rightarrow> Post E (cfg out1) u2 p Nil [])"

section \<open>A table of collaborators for running the model\<close>

text \<open>
  The theorems below hold for every table of collaborators. To run the model on
  concrete calls, this table gives each collaborator a simple behaviour that agrees with
  the host platform on the inputs of the examples: parameter values are strings,
  \<open>Strval\<close> of a string is the string, a map of strings is marshalled as a JSON object of
  quoted strings (a \<^verbatim>\<open>nil\<close> map as \<^verbatim>\<open>null\<close>), a URL is an absolute URL
  \<^verbatim>\<open>scheme://host/path?query#fragment\<close> without escapes, a body is JSON when it is
  written in braces, a JSON body is decoded into a pointer to a non-string element by
  storing its text, and the transport answers every request with the given response.
\<close>

definition quote :: "string \<Rightarrow> string" where
  "quote s = [CHR 0x22] @ s @ [CHR 0x22]"

definition example_Marshal :: "string gomap \<Rightarrow> error + string" where
  "example_Marshal m =
     (case m of
        None \<Rightarrow> Inr ''null''
      | Some kvs \<Rightarrow> Inr (''{'' @ join '','' (map (\<lambda>(k, v). quote k @ '':'' @ quote v) kvs) @ ''}''))"

definition isCTL :: "char \<Rightarrow> bool" where
  "isCTL c \<longleftrightarrow> c < CHR '' '' \<or> c = CHR 0x7F"

definition cut :: "char \<Rightarrow> string \<Rightarrow> string \<times> string" where
  "cut c s = (takeWhile (\<lambda>x. x \<noteq> c) s, drop 1 (dropWhile (\<lambda>x. x \<noteq> c) s))"

definition example_Parse :: "string \<Rightarrow> error + URL" where
  "example_Parse s =
     (if list_ex isCTL s then Inl (Errorf ''net/url: invalid control character in URL'')
      else
        (case cut (CHR ''#'') s of (u, frag) \<Rightarrow>
         (case cut (CHR ''?'') u of (stem, query) \<Rightarrow>
         (case cut (CHR '':'') stem of (scheme, rest) \<Rightarrow>
            Inr \<lparr>Scheme = scheme,
                 Host = takeWhile (\<lambda>x. x \<noteq> CHR ''/'') (drop 2 rest),
                 Path = dropWhile (\<lambda>x. x \<noteq> CHR ''/'') (drop 2 rest),
                 ForceQuery = (query = [] \<and> u \<noteq> stem),
                 RawQuery = query,
                 Fragment = frag\<rparr>))))"

definition example_String :: "URL \<Rightarrow> string" where
  "example_String u =
     Scheme u @ ''://'' @ Host u @ Path u
       @ (if ForceQuery u \<or> RawQuery u \<noteq> [] then ''?'' @ RawQuery u else [])
       @ (if Fragment u \<noteq> [] then ''#'' @ Fragment u else [])"

definition example_Valid :: "string \<Rightarrow> bool" where
  "example_Valid b \<longleftrightarrow> b \<noteq> [] \<and> hd b = CHR ''{'' \<and> last b = CHR ''}''"

fun example_Unmarshal :: "string \<Rightarrow> string result \<Rightarrow> error option \<times> string result" where
  "example_Unmarshal b (Pointer canSet (Other_val v)) = (None, Pointer canSet (Other_val b))"
| "example_Unmarshal b (Pointer canSet (String_val s)) =
     (Some (Errorf ''json: cannot unmarshal object into Go value of type string''),
      Pointer canSet (String_val s))"
| "example_Unmarshal b res = (None, res)"

definition example_env :: "Response \<Rightarrow> string env" where
  "example_env resp =
     \<lparr>Strval = (\<lambda>s. s),
      json_Marshal = example_Marshal,
      url_Parse = example_Parse,
      URL_String = example_String,
      NewRequestWithContext = (\<lambda>m u. None),
      client_Do = (\<lambda>c t req. Inr resp),
      json_Valid = example_Valid,
      json_Unmarshal = example_Unmarshal\<rparr>"

text \<open>Two hooks for the examples: one that fails, one that leaves a mark in the body.\<close>

definition failing_hook :: "string hook" where
  "failing_hook = (\<lambda>r. (Some (Errorf ''boom''), r))"

definition marking_hook :: "string \<Rightarrow> string hook" where
  "marking_hook s = (\<lambda>r. (None, SetBody (Some s) r))"

definition example_Response :: "string \<Rightarrow> error option \<Rightarrow> Response" where
  "example_Response b closeErr =
     \<lparr>StatusCode = 200, resp_header = [],
      resp_Body = \<lparr>content = b, read_err = None, close_err = closeErr\<rparr>\<rparr>"

section \<open>Maps and query strings\<close>

text \<open>
  Merging a table with pairwise different keys into a map adds its entries to the map,
  whatever the order of the table.
\<close>

lemma map_of_fold_update:
  "distinct (map fst kvs) \<Longrightarrow>
   map_of (fold (\<lambda>(k, v). AList.update k v) kvs d) = map_of d ++ map_of kvs"
proof (induction kvs arbitrary: d)
  case Nil
  then show ?case by simp
next
  case (Cons kv kvs)
  obtain k v where kv: "kv = (k, v)" by (cases kv)
  from Cons.prems have k: "k \<notin> fst ` set kvs" and d: "distinct (map fst kvs)"
    by (auto simp: kv)
  have none: "map_of kvs k = None" using k by (simp add: map_of_eq_None_iff)
  have swap: "((map_of d)(k \<mapsto> v)) ++ map_of kvs = map_of d ++ map_of ((k, v) # kvs)"
  proof (rule ext)
    fix x show "(((map_of d)(k \<mapsto> v)) ++ map_of kvs) x = (map_of d ++ map_of ((k, v) # kvs)) x"
      using none by (cases "x = k") (simp_all add: map_add_def split: option.splits)
  qed
  have "map_of (fold (\<lambda>(k, v). AList.update k v) (kv # kvs) d)
          = map_of (fold (\<lambda>(k, v). AList.update k v) kvs (AList.update k v d))"
    by (simp add: kv)
  also have "\<dots> = map_of (AList.update k v d) ++ map_of kvs"
    by (rule Cons.IH [OF d])
  also have "\<dots> = ((map_of d)(k \<mapsto> v)) ++ map_of kvs"
    by (simp only: update_conv')
  also have "\<dots> = map_of d ++ map_of (kv # kvs)"
    unfolding kv by (rule swap)
  finally show ?case .
qed


lemma assign_all_Some:
  "assign_all (Some kvs) (Some d) = Some (Some (fold (\<lambda>(k, v). AList.update k v) kvs d))"
  by (cases kvs) (simp_all add: assign_all_def)

lemma distinct_fold_update:
  "distinct (map fst d) \<Longrightarrow> distinct (map fst (fold (\<lambda>(k, v). AList.update k v) kvs d))"
  by (induction kvs arbitrary: d) (auto simp: distinct_update)





text \<open>
  With pairwise different keys every key of the \<^verbatim>\<open>Values\<close> has one value, and
  \<open>Values_Encode\<close> writes the query of the specification: the order in which the
  parameters were added does not matter.
\<close>

lemma fold_Values_Add:
  "distinct (map fst kvs) \<Longrightarrow> fst ` set acc \<inter> fst ` set kvs = {} \<Longrightarrow>
   fold (\<lambda>(key, v). Values_Add key (g v)) kvs acc = acc @ map (\<lambda>(k, v). (k, [g v])) kvs"
proof (induction kvs arbitrary: acc)
  case Nil
  then show ?case by simp
next
  case (Cons kv kvs)
  obtain k v where kv: "kv = (k, v)" by (cases kv)
  have add: "Values_Add k x acc = acc @ [(k, [x])]" if "k \<notin> fst ` set acc" for x
    using that by (induction acc) auto
  from Cons.prems have knew: "k \<notin> fst ` set acc" by (auto simp: kv)
  from Cons.prems have d: "distinct (map fst kvs)" by simp
  from Cons.prems have disj: "fst ` set (acc @ [(k, [g v])]) \<inter> fst ` set kvs = {}"
    by (auto simp: kv)
  show ?case
    using Cons.IH [OF d disj] by (simp add: kv add [OF knew])
qed

lemma query_values_distinct:
  "distinct (map fst (entries m)) \<Longrightarrow>
   query_values E m = map (\<lambda>(k, v). (k, [Strval E v])) (entries m)"
  using fold_Values_Add [of "entries m" "[]" "Strval E"] by (simp add: query_values_def)

lemma join_Cons: "ys \<noteq> [] \<Longrightarrow> join sep (x # ys) = x @ sep @ join sep ys"
  by (cases ys) simp_all

lemma fold_write_pair:
  "fold (\<lambda>k buf. write_pair (f k) (g k) buf) ks buf =
     (if ks = [] then buf
      else (if buf = [] then [] else buf @ ''&'')
             @ join ''&'' (map (\<lambda>k. f k @ ''='' @ QueryEscape (g k)) ks))"
proof (induction ks arbitrary: buf)
  case Nil
  then show ?case by simp
next
  case (Cons k ks)
  have ne: "write_pair (f k) (g k) buf \<noteq> []"
    by (simp add: write_pair_def)
  show ?case
  proof (cases "ks = []")
    case True
    then show ?thesis by (simp add: write_pair_def)
  next
    case False
    then show ?thesis
      using ne by (simp add: Cons.IH join_Cons) (simp add: write_pair_def)
  qed
qed

lemma map_insort_key: "map f (insort_key f x xs) = insort (f x) (map f xs)"
  by (induction xs) simp_all

lemma map_sort_key: "map f (sort_key f xs) = sort (map f xs)"
  by (induction xs) (simp_all add: map_insort_key)

lemma sort_key_fst_distinct:
  assumes "distinct (map fst kvs)"
  shows "sort_key fst kvs = map (\<lambda>k. (k, the (map_of kvs k))) (sort (map fst kvs))"
proof -
  have "sort_key fst kvs = map (\<lambda>p. (fst p, the (map_of kvs (fst p)))) (sort_key fst kvs)"
  proof -
    have "\<And>p. p \<in> set (sort_key fst kvs) \<Longrightarrow> (fst p, the (map_of kvs (fst p))) = p"
    proof -
      fix p assume "p \<in> set (sort_key fst kvs)"
      then have "p \<in> set kvs" by simp
      then have "map_of kvs (fst p) = Some (snd p)"
        using assms map_of_is_SomeI [of kvs "fst p" "snd p"] by simp
      then show "(fst p, the (map_of kvs (fst p))) = p" by simp
    qed
    then have "map (\<lambda>p. (fst p, the (map_of kvs (fst p)))) (sort_key fst kvs) = sort_key fst kvs"
      by (intro map_idI) 
    then show ?thesis by (rule sym)
  qed
  also have "\<dots> = map (\<lambda>k. (k, the (map_of kvs k))) (map fst (sort_key fst kvs))"
    by (simp add: comp_def)
  also have "map fst (sort_key fst kvs) = sort (map fst kvs)"
    by (rule map_sort_key)
  finally show ?thesis .
qed

lemma Values_Encode_singletons:
  assumes "distinct (map fst kvs)"
  shows "Values_Encode (map (\<lambda>(k, v). (k, [g v])) kvs) = sorted_query (map (\<lambda>(k, v). (k, g v)) kvs)"
proof -
  let ?v = "map (\<lambda>(k, v). (k, [g v])) kvs"
  let ?kvs' = "map (\<lambda>(k, v). (k, g v)) kvs"
  have fst_v: "map fst ?v = map fst kvs" and fst_kvs': "map fst ?kvs' = map fst kvs"
    by (simp_all add: comp_def case_prod_beta)
  have d': "distinct (map fst ?kvs')" using assms by (simp only: fst_kvs')
  have vals: "concat (map snd (filter (\<lambda>e. fst e = k) ?v)) = [the (map_of ?kvs' k)]"
    if "k \<in> set (map fst kvs)" for k
    using that assms
  proof (induction kvs)
    case Nil
    then show ?case by simp
  next
    case (Cons kv kvs)
    obtain a b where kv: "kv = (a, b)" by (cases kv)
    show ?case
    proof (cases "a = k")
      case True
      with Cons.prems have "k \<notin> fst ` set kvs" by (auto simp: kv)
      then have "filter (\<lambda>e. fst e = k) (map (\<lambda>(k, v). (k, [g v])) kvs) = []"
        by (force simp: filter_empty_conv)
      then show ?thesis using True by (simp add: kv)
    next
      case False
      with Cons.prems have "k \<in> set (map fst kvs)" and "distinct (map fst kvs)"
        by (auto simp: kv)
      then show ?thesis using False Cons.IH by (simp add: kv)
    qed
  qed
  have "Values_Encode ?v =
          fold (\<lambda>k buf. fold (write_pair (QueryEscape k)) (concat (map snd (filter (\<lambda>e. fst e = k) ?v))) buf)
               (sort (map fst kvs)) []"
    using assms by (simp only: Values_Encode_def fst_v distinct_remdups_id)
  also have "\<dots> = fold (\<lambda>k buf. write_pair (QueryEscape k) (the (map_of ?kvs' k)) buf) (sort (map fst kvs)) []"
    by (rule fold_cong) (simp_all add: vals del: set_map)
  also have "\<dots> = join ''&'' (map (\<lambda>k. QueryEscape k @ ''='' @ QueryEscape (the (map_of ?kvs' k))) (sort (map fst kvs)))"
    by (simp add: fold_write_pair)
  also have "\<dots> = sorted_query ?kvs'"
    unfolding sorted_query_def sort_key_fst_distinct [OF d'] fst_kvs'
    by (simp add: comp_def)
  finally show ?thesis .
qed

lemma sort_key_fst_cong:
  assumes "distinct (map fst xs)" and "distinct (map fst ys)" and "map_of xs = map_of ys"
  shows "sort_key fst xs = sort_key fst ys"
proof -
  have "set (map fst xs) = set (map fst ys)"
    using assms(3) by (metis dom_map_of_conv_image_fst set_map)
  then have "sort (map fst xs) = sort (map fst ys)"
    using assms(1,2) by (intro sorted_distinct_set_unique) simp_all
  then show ?thesis
    by (simp only: sort_key_fst_distinct [OF assms(1)] sort_key_fst_distinct [OF assms(2)] assms(3))
qed

lemma merge_into_empty:
  assumes "distinct (map fst kvs)"
  shows "sort_key fst (fold (\<lambda>(k, v). AList.update k v) kvs []) = sort_key fst kvs"
proof (rule sort_key_fst_cong)
  show "distinct (map fst (fold (\<lambda>(k, v). AList.update k v) kvs []))"
    by (rule distinct_fold_update) simp
  show "distinct (map fst kvs)" by (rule assms)
  show "map_of (fold (\<lambda>(k, v). AList.update k v) kvs []) = map_of kvs"
    by (simp add: map_of_fold_update [OF assms])
qed

lemma sorted_query_map_cong:
  assumes "distinct (map fst xs)" and "distinct (map fst ys)" and "map_of xs = map_of ys"
  shows "sorted_query (map (\<lambda>(k, v). (k, g v)) xs) = sorted_query (map (\<lambda>(k, v). (k, g v)) ys)"
proof -
  have f: "map fst (map (\<lambda>(k, v). (k, g v)) zs) = map fst zs" for zs :: "(string \<times> 'a) list"
    by (simp add: comp_def case_prod_beta)
  have "map_of (map (\<lambda>(k, v). (k, g v)) xs) = map_of (map (\<lambda>(k, v). (k, g v)) ys)"
    using assms(3) by (simp add: map_of_map)
  then have "sort_key fst (map (\<lambda>(k, v). (k, g v)) xs) = sort_key fst (map (\<lambda>(k, v). (k, g v)) ys)"
    using assms(1,2) by (intro sort_key_fst_cong) (simp_all only: f)
  then show ?thesis by (simp only: sorted_query_def)
qed

section \<open>Options, hooks and the request\<close>

lemma withOpt_append:
  "withOpt r (xs @ ys) = (case withOpt r xs of None \<Rightarrow> None | Some r' \<Rightarrow> withOpt r' ys)"
  by (induction xs arbitrary: r) (simp_all split: option.splits)

lemma run_hooks_append:
  "run_hooks (hs @ hs') f =
     (case run_hooks hs f of (Some e, f') \<Rightarrow> (Some e, f') | (None, f') \<Rightarrow> run_hooks hs' f')"
  by (induction hs arbitrary: f) (auto split: prod.splits option.splits)

lemma fields_of_simps [simp]:
  "url (fields_of r) = url r" "method_f (fields_of r) = method_f r"
  "timeout (fields_of r) = timeout r" "header (fields_of r) = header r"
  "param (fields_of r) = param r" "body (fields_of r) = body r"
  "tLSClientConfig (fields_of r) = tLSClientConfig r" "log (fields_of r) = log r"
  "deleteUriFlag (fields_of r) = deleteUriFlag r" "response (fields_of r) = response r"
  by (simp_all add: fields_of_def)

lemma store_fields_simps [simp]:
  "url (store_fields f r) = url f" "method_f (store_fields f r) = method_f f"
  "timeout (store_fields f r) = timeout f" "header (store_fields f r) = header f"
  "param (store_fields f r) = param f" "body (store_fields f r) = body f"
  "tLSClientConfig (store_fields f r) = tLSClientConfig f" "log (store_fields f r) = log f"
  "deleteUriFlag (store_fields f r) = deleteUriFlag f" "response (store_fields f r) = response f"
  "beforeRequest (store_fields f r) = beforeRequest r"
  by (simp_all add: store_fields_def)

lemma facade_options_order:
  fixes r :: "'v parameter"
  shows
  "withOpt r (WithUrl u # Get_opts E u opts) =
     (case withOpt (r\<lparr>url := u\<rparr>) opts of
        None \<Rightarrow> None
      | Some r0 \<Rightarrow> Some (r0\<lparr>method_f := MethodGet, beforeRequest := beforeRequest r0 @ [Get_hook E u]\<rparr>))"
  by (simp add: Get_opts_def withOpt_append WithUrl_def WithMethod_def WithBeforeRequest_def
        split: option.splits)

lemma withOpt_WithUrl: "withOpt r (WithUrl u # opts) = withOpt (r\<lparr>url := u\<rparr>) opts"
  by (simp add: WithUrl_def)

lemma request_after_options:
  assumes "withOpt r (WithUrl u # opts) = Some r1"
    and "run_hooks (beforeRequest r1) (fields_of r1) = (None, f)"
  shows "request E r u res opts = Some (dispatch E (store_fields f r1) res)"
  using assms by (simp add: request_def prepare_def)

lemma request_dispatch:
  "prepare r u opts = Some (None, r2) \<Longrightarrow> request E r u res opts = Some (dispatch E r2 res)"
  by (simp add: request_def)

lemma run_hooks_single:
  "run_hooks [h] f =
     (case h f of (Some e, f') \<Rightarrow> (Some (Wrapf ''request callback err, r: %v, '' e), f')
                | (None, f') \<Rightarrow> (None, f'))"
  by (simp split: prod.splits option.splits)

lemma fields_of_hooks [simp]: "fields_of (r\<lparr>beforeRequest := hs\<rparr>) = fields_of r"
  by (simp add: fields_of_def)

lemma Get_after_options:
  assumes "withOpt r (WithUrl u # opts) = Some r0"
    and "run_hooks (beforeRequest r0) (fields_of (r0\<lparr>method_f := MethodGet\<rparr>)) = (None, f)"
    and "url_Parse E u = Inr netUrl"
  shows "Get E r u res opts =
           Some (dispatch E
             (store_fields (f\<lparr>url := URL_String E (netUrl\<lparr>RawQuery := Values_Encode (query_values E (param f))\<rparr>)\<rparr>)
                (r0\<lparr>method_f := MethodGet, beforeRequest := beforeRequest r0 @ [Get_hook E u]\<rparr>)) res)"
proof -
  let ?r1 = "r0\<lparr>method_f := MethodGet, beforeRequest := beforeRequest r0 @ [Get_hook E u]\<rparr>"
  have "withOpt (r\<lparr>url := u\<rparr>) opts = Some r0"
    using assms(1) by (simp only: withOpt_WithUrl)
  then have o: "withOpt r (WithUrl u # Get_opts E u opts) = Some ?r1"
    unfolding facade_options_order by simp
  have h: "run_hooks (beforeRequest ?r1) (fields_of ?r1)
             = (None, f\<lparr>url := URL_String E (netUrl\<lparr>RawQuery := Values_Encode (query_values E (param f))\<rparr>)\<rparr>)"
    using assms(2,3) by (simp add: run_hooks_append run_hooks_single Get_hook_def rewrite_url_def)
  show ?thesis
    unfolding Get_def by (rule request_after_options [OF o h])
qed

lemma body_hook_after_options:
  assumes "withOpt r (WithUrl u # opts) = Some r0"
    and "assign_all p (param r0) = Some m"
    and "run_hooks (beforeRequest r0) (fields_of (r0\<lparr>method_f := me, param := m\<rparr>)) = (None, f)"
    and "param f = Some m'"
    and "Marshal E (Some m') = Inr data"
  shows "request E r u res (opts @ [WithMethod me, WithParam p, WithBeforeRequest (body_hook E msg)]) =
           Some (dispatch E
             (store_fields (f\<lparr>body := Some data\<rparr>)
                (r0\<lparr>beforeRequest := beforeRequest r0 @ [body_hook E msg]\<rparr>)) res)"
proof -
  let ?r1 = "r0\<lparr>method_f := me, param := m, beforeRequest := beforeRequest r0 @ [body_hook E msg]\<rparr>"
  have o: "withOpt r (WithUrl u # opts @ [WithMethod me, WithParam p, WithBeforeRequest (body_hook E msg)]) = Some ?r1"
    using assms(1,2) withOpt_append [of r "WithUrl u # opts"]
    by (simp add: WithMethod_def WithParam_def WithBeforeRequest_def)
  have fo: "fields_of ?r1 = fields_of (r0\<lparr>method_f := me, param := m\<rparr>)"
    by (simp add: fields_of_def)
  have bh: "body_hook E msg f = (None, f\<lparr>body := Some data\<rparr>)"
    using assms(4,5) by (simp add: body_hook_def SetBody_def)
  have h: "run_hooks (beforeRequest ?r1) (fields_of ?r1) = (None, f\<lparr>body := Some data\<rparr>)"
    unfolding fo using assms(3) bh by (simp add: run_hooks_append)
  have s: "store_fields x ?r1 = store_fields x (r0\<lparr>beforeRequest := beforeRequest r0 @ [body_hook E msg]\<rparr>)" for x
    by (simp add: store_fields_def)
  show ?thesis
    using request_after_options [OF o h, of E res] by (simp only: s)
qed

lemma fields_of_update [simp]:
  "fields_of (r\<lparr>url := a\<rparr>) = (fields_of r)\<lparr>url := a\<rparr>"
  "fields_of (r\<lparr>method_f := b\<rparr>) = (fields_of r)\<lparr>method_f := b\<rparr>"
  "fields_of (r\<lparr>param := c\<rparr>) = (fields_of r)\<lparr>param := c\<rparr>"
  "fields_of (r\<lparr>body := d\<rparr>) = (fields_of r)\<lparr>body := d\<rparr>"
  by (simp_all add: fields_of_def)

lemma Delete_after_options:
  assumes "withOpt r (WithUrl u # opts) = Some r0"
    and "assign_all p (param r0) = Some m"
    and "run_hooks (beforeRequest r0) (fields_of (r0\<lparr>method_f := MethodDelete, param := m\<rparr>)) = (None, f)"
    and "param f = Some m'"
    and "Marshal E (Some m') = Inr data"
    and "(if deleteUriFlag f then rewrite_url E u (f\<lparr>body := Some data\<rparr>)
          else (None, f\<lparr>body := Some data\<rparr>)) = (None, g)"
  shows "Delete E r u p res opts =
           Some (dispatch E
             (store_fields g (r0\<lparr>beforeRequest := beforeRequest r0 @ [Delete_hook E u]\<rparr>)) res)"
proof -
  let ?r1 = "r0\<lparr>method_f := MethodDelete, param := m,
                beforeRequest := beforeRequest r0 @ [Delete_hook E u]\<rparr>"
  have o: "withOpt r (WithUrl u # Delete_opts E u p opts) = Some ?r1"
    using assms(1,2) withOpt_append [of r "WithUrl u # opts"]
    by (simp add: Delete_opts_def WithMethod_def WithParam_def WithBeforeRequest_def)
  have fo: "fields_of ?r1 = fields_of (r0\<lparr>method_f := MethodDelete, param := m\<rparr>)"
    by (simp add: fields_of_def)
  have dh: "Delete_hook E u f = (None, g)"
    using assms(4,5,6) by (simp add: Delete_hook_def SetBody_def Let_def)
  have h: "run_hooks (beforeRequest ?r1) (fields_of ?r1) = (None, g)"
    unfolding fo using assms(3) dh by (simp add: run_hooks_append)
  have s: "store_fields x ?r1 = store_fields x (r0\<lparr>beforeRequest := beforeRequest r0 @ [Delete_hook E u]\<rparr>)" for x
    by (simp add: store_fields_def)
  show ?thesis
    unfolding Delete_def using request_after_options [OF o h, of E res] by (simp only: s)
qed

lemma rewrite_url_ok:
  "url_Parse E u = Inr netUrl \<Longrightarrow>
   rewrite_url E u g =
     (None, g\<lparr>url := URL_String E (netUrl\<lparr>RawQuery := Values_Encode (query_values E (param g))\<rparr>)\<rparr>)"
  by (simp add: rewrite_url_def)

lemma append_options_order:
  "withOpt r (WithUrl u # opts @ [WithMethod me, WithParam p, WithBeforeRequest h]) =
     (case withOpt (r\<lparr>url := u\<rparr>) opts of
        None \<Rightarrow> None
      | Some r0 \<Rightarrow>
          (case assign_all p (param r0) of
             None \<Rightarrow> None
           | Some m \<Rightarrow> Some (r0\<lparr>method_f := me, param := m,
                                beforeRequest := beforeRequest r0 @ [h]\<rparr>)))"
  using withOpt_append [of r "WithUrl u # opts"]
  by (simp add: WithUrl_def WithMethod_def WithParam_def WithBeforeRequest_def split: option.splits)

lemma receive_decode:
  assumes "read_err (resp_Body resp) = None"
    and "content (resp_Body resp) = b" and "b \<noteq> []"
    and "res \<noteq> Nil"
  shows "\<exists>cap evs. receive E slot resp res = (fst (decode E b res), snd (decode E b res), cap, evs)"
  using assms
  by (cases slot) (simp_all add: receive_def read_result_def ReadAll_def split: prod.splits)

lemma dispatch_decode:
  assumes "NewRequestWithContext E (method_f r2) (url r2) = None"
    and "client_Do E (tLSClientConfig r2) (timeout r2) (build_request r2) = Inr resp"
    and "read_err (resp_Body resp) = None"
    and "content (resp_Body resp) = b" and "b \<noteq> []"
    and "res \<noteq> Nil"
  shows "target (dispatch E r2 res) = snd (decode E b res) \<and>
         err (dispatch E r2 res) = close_body (resp_Body resp) (fst (decode E b res))"
proof -
  obtain cap evs where
    "receive E (response r2) resp res = (fst (decode E b res), snd (decode E b res), cap, evs)"
    using receive_decode [OF assms(3-6)] by blast
  then show ?thesis
    using assms(1,2) by (simp add: dispatch_def)
qed

text \<open>
  The defining equations, for running the model on concrete calls.
\<close>

lemmas pipeline_defs =
  Get_def Post_def Put_def Delete_def Get_opts_def Post_opts_def Put_opts_def Delete_opts_def
  request_def prepare_def dispatch_def receive_def read_result_def decode_def close_body_def
  build_request_def Header_Set_def CanonicalMIMEHeaderKey_def validHeaderFieldByte_def
  canonical_byte_def ReadAll_def NopCloser_def
  WithUrl_def WithMethod_def WithParam_def WithBeforeRequest_def assign_all_def
  Get_hook_def Post_hook_def Put_hook_def Delete_hook_def body_hook_def rewrite_url_def
  SetBody_def Marshal_def query_values_def Values_Encode_def write_pair_def
  QueryEscape_def escape_byte_def shouldEscape_def isAlnum_def upperhex_def
  fields_of_def store_fields_def New_def
  MethodGet_def MethodPost_def MethodPut_def MethodDelete_def

lemmas example_defs =
  example_env_def example_Response_def example_Marshal_def example_Parse_def
  example_String_def example_Valid_def quote_def cut_def isCTL_def

lemma example_prepare_Get:
  "prepare (New :: string parameter) ''http://x/a'' (Get_opts (example_env resp) ''http://x/a'' [])
     = Some (None, New\<lparr>url := ''http://x/a'', method_f := MethodGet,
                        beforeRequest := [Get_hook (example_env resp) ''http://x/a'']\<rparr>)"
  by (simp add: prepare_def Get_opts_def WithUrl_def WithMethod_def WithBeforeRequest_def
        Get_hook_def rewrite_url_def query_values_def Values_Encode_def store_fields_def
        fields_of_def New_def example_defs)

lemma example_after_Get:
  "\<exists>out. Get (example_env (example_Response [] None)) (New :: string parameter) ''http://x/a'' Nil []
            = Some out \<and>
         cfg out = New\<lparr>url := ''http://x/a'',
                        beforeRequest := [Get_hook (example_env (example_Response [] None)) ''http://x/a'']\<rparr>"
  by (simp add: pipeline_defs example_defs)

section \<open>The claims of the specification\<close>

subsection \<open>C1: a record of its own for every call\<close>

text \<open>
  Claim C1 says that every call of \<open>Get\<close>, \<open>Post\<close>, \<open>Put\<close> or \<open>Delete\<close> applies its
  options to a fresh record, so that nothing the first of two calls on a client has set
  is visible to the second. The program does not do that: a client holds the one record
  that \<open>New\<close> has made; every call applies its options to it and runs all the hooks it
  holds. On a new client, a \<open>Get\<close> of \<^verbatim>\<open>http://x/a\<close> leaves its URL and its hook in the
  record. A \<open>Post\<close> to \<^verbatim>\<open>http://x/b\<close> builds its request for \<^verbatim>\<open>http://x/b\<close> on a new
  client, but for \<^verbatim>\<open>http://x/a?n=1\<close> when it follows that \<open>Get\<close>: the hook of the \<open>Get\<close>
  runs again and rewrites the URL.
\<close>

theorem second_call_starts_from_first_call_record:
  "map_option (url \<circ> cfg)
     (Get (example_env (example_Response [] None)) New ''http://x/a'' Nil []) = Some ''http://x/a'' \<and>
   map_option (length \<circ> beforeRequest \<circ> cfg)
     (Get (example_env (example_Response [] None)) New ''http://x/a'' Nil []) = Some 1 \<and>
   map_option (take 1 \<circ> events)
     (Post (example_env (example_Response [] None)) New ''http://x/b'' (Some [(''n'', ''1'')]) Nil [])
     = Some [Ev_NewRequest ''POST'' ''http://x/b'' (Some (''{'' @ quote ''n'' @ '':'' @ quote ''1'' @ ''}''))] \<and>
   map_option (take 1 \<circ> events)
     (Get_then_Post (example_env (example_Response [] None)) New ''http://x/a'' ''http://x/b''
        (Some [(''n'', ''1'')]))
     = Some [Ev_NewRequest ''POST'' ''http://x/a?n=1'' (Some (''{'' @ quote ''n'' @ '':'' @ quote ''1'' @ ''}''))]"
  by (simp add: Get_then_Post_def pipeline_defs example_defs)

subsection \<open>C2: the order of the options\<close>

text \<open>
  Claim C2, as amended. The claim says that the options a facade method adds are applied
  before the options of the caller, so that \<open>WithMethod\<close> of the caller wins. It is the
  other way round: \<open>request\<close> applies the option for the URL first, then the options of
  the caller, and last the options the method has appended, which are its
  \<open>WithMethod\<close>, its \<open>WithParam\<close> and its hook. So after the options the method of the
  record is the one of the facade method, whatever the options of the caller have set.
\<close>

theorem facade_options_after_caller_options:
  fixes r :: "'v parameter"
  shows
  "withOpt r (WithUrl u # Get_opts E u opts) =
     (case withOpt (r\<lparr>url := u\<rparr>) opts of
        None \<Rightarrow> None
      | Some r0 \<Rightarrow>
          Some (r0\<lparr>method_f := MethodGet, beforeRequest := beforeRequest r0 @ [Get_hook E u]\<rparr>)) \<and>
   withOpt r (WithUrl u # Post_opts E p opts) =
     (case withOpt (r\<lparr>url := u\<rparr>) opts of
        None \<Rightarrow> None
      | Some r0 \<Rightarrow>
          (case assign_all p (param r0) of
             None \<Rightarrow> None
           | Some m \<Rightarrow> Some (r0\<lparr>method_f := MethodPost, param := m,
                                beforeRequest := beforeRequest r0 @ [Post_hook E]\<rparr>))) \<and>
   withOpt r (WithUrl u # Put_opts E p opts) =
     (case withOpt (r\<lparr>url := u\<rparr>) opts of
        None \<Rightarrow> None
      | Some r0 \<Rightarrow>
          (case assign_all p (param r0) of
             None \<Rightarrow> None
           | Some m \<Rightarrow> Some (r0\<lparr>method_f := MethodPut, param := m,
                                beforeRequest := beforeRequest r0 @ [Put_hook E]\<rparr>))) \<and>
   withOpt r (WithUrl u # Delete_opts E u p opts) =
     (case withOpt (r\<lparr>url := u\<rparr>) opts of
        None \<Rightarrow> None
      | Some r0 \<Rightarrow>
          (case assign_all p (param r0) of
             None \<Rightarrow> None
           | Some m \<Rightarrow> Some (r0\<lparr>method_f := MethodDelete, param := m,
                                beforeRequest := beforeRequest r0 @ [Delete_hook E u]\<rparr>))) \<and>
   (\<forall>r1. withOpt r (WithUrl u # Get_opts E u opts) = Some r1 \<longrightarrow> method_f r1 = MethodGet) \<and>
   (\<forall>r1. withOpt r (WithUrl u # Post_opts E p opts) = Some r1 \<longrightarrow> method_f r1 = MethodPost) \<and>
   (\<forall>r1. withOpt r (WithUrl u # Put_opts E p opts) = Some r1 \<longrightarrow> method_f r1 = MethodPut) \<and>
   (\<forall>r1. withOpt r (WithUrl u # Delete_opts E u p opts) = Some r1 \<longrightarrow> method_f r1 = MethodDelete)"
proof -
  have g: "withOpt r (WithUrl u # Get_opts E u opts) =
     (case withOpt (r\<lparr>url := u\<rparr>) opts of
        None \<Rightarrow> None
      | Some r0 \<Rightarrow>
          Some (r0\<lparr>method_f := MethodGet, beforeRequest := beforeRequest r0 @ [Get_hook E u]\<rparr>))"
    by (rule facade_options_order)
  note po = append_options_order [of r u opts MethodPost p "Post_hook E", folded Post_opts_def]
  note pu = append_options_order [of r u opts MethodPut p "Put_hook E", folded Put_opts_def]
  note de = append_options_order [of r u opts MethodDelete p "Delete_hook E u", folded Delete_opts_def]
  have mg: "method_f r1 = MethodGet" if "withOpt r (WithUrl u # Get_opts E u opts) = Some r1" for r1
    using that unfolding g by (auto split: option.splits)
  have mpo: "method_f r1 = MethodPost" if "withOpt r (WithUrl u # Post_opts E p opts) = Some r1" for r1
    using that unfolding po by (auto split: option.splits)
  have mpu: "method_f r1 = MethodPut" if "withOpt r (WithUrl u # Put_opts E p opts) = Some r1" for r1
    using that unfolding pu by (auto split: option.splits)
  have mde: "method_f r1 = MethodDelete" if "withOpt r (WithUrl u # Delete_opts E u p opts) = Some r1" for r1
    using that unfolding de by (auto split: option.splits)
  show ?thesis
    using g po pu de mg mpo mpu mde by blast
qed

text \<open>
  The theorem on a new client: a \<open>Get\<close> with the option \<open>WithMethod MethodPost\<close> of the
  caller, and \<open>Post\<close>, \<open>Put\<close> and \<open>Delete\<close> with the option \<open>WithMethod MethodGet\<close>.
\<close>

theorem facade_options_after_caller_options_witness:
  "withOpt (New :: string parameter)
     (WithUrl ''http://x/a'' # Get_opts (example_env (example_Response [] None)) ''http://x/a''
        [WithMethod MethodPost])
     = Some (New\<lparr>url := ''http://x/a'', method_f := MethodGet,
               beforeRequest := [Get_hook (example_env (example_Response [] None)) ''http://x/a'']\<rparr>) \<and>
   map_option method_f
     (withOpt (New :: string parameter)
        (WithUrl ''http://x/a'' # Get_opts (example_env (example_Response [] None)) ''http://x/a''
           [WithMethod MethodPost])) = Some MethodGet \<and>
   map_option method_f
     (withOpt (New :: string parameter)
        (WithUrl ''http://x/a'' # Post_opts (example_env (example_Response [] None)) None
           [WithMethod MethodGet])) = Some MethodPost \<and>
   map_option method_f
     (withOpt (New :: string parameter)
        (WithUrl ''http://x/a'' # Put_opts (example_env (example_Response [] None)) None
           [WithMethod MethodGet])) = Some MethodPut \<and>
   map_option method_f
     (withOpt (New :: string parameter)
        (WithUrl ''http://x/a'' # Delete_opts (example_env (example_Response [] None)) ''http://x/a'' None
           [WithMethod MethodGet])) = Some MethodDelete"
proof -
  let ?E = "example_env (example_Response [] None)"
  let ?r1 = "(New :: string parameter)\<lparr>url := ''http://x/a'', method_f := MethodGet,
               beforeRequest := [Get_hook ?E ''http://x/a'']\<rparr>"
  note t = facade_options_after_caller_options
    [of New "''http://x/a''" ?E "[WithMethod MethodPost]" None]
  note t' = facade_options_after_caller_options
    [of New "''http://x/a''" ?E "[WithMethod MethodGet]" None]
  have a: "withOpt New (WithUrl ''http://x/a'' # Get_opts ?E ''http://x/a'' [WithMethod MethodPost])
             = Some ?r1"
    using t by (simp add: WithMethod_def New_def)
  have g: "map_option method_f
             (withOpt New (WithUrl ''http://x/a'' # Get_opts ?E ''http://x/a'' [WithMethod MethodPost]))
           = Some MethodGet"
    using t a by simp
  obtain r2 where b: "withOpt (New :: string parameter)
      (WithUrl ''http://x/a'' # Post_opts ?E None [WithMethod MethodGet]) = Some r2"
    by (simp add: Post_opts_def WithUrl_def WithMethod_def WithParam_def WithBeforeRequest_def
          assign_all_def)
  have po: "map_option method_f
             (withOpt New (WithUrl ''http://x/a'' # Post_opts ?E None [WithMethod MethodGet]))
           = Some MethodPost"
    using t' b by simp
  obtain r3 where c: "withOpt (New :: string parameter)
      (WithUrl ''http://x/a'' # Put_opts ?E None [WithMethod MethodGet]) = Some r3"
    by (simp add: Put_opts_def WithUrl_def WithMethod_def WithParam_def WithBeforeRequest_def
          assign_all_def)
  have pu: "map_option method_f
             (withOpt New (WithUrl ''http://x/a'' # Put_opts ?E None [WithMethod MethodGet]))
           = Some MethodPut"
    using t' c by simp
  obtain r4 where d: "withOpt (New :: string parameter)
      (WithUrl ''http://x/a'' # Delete_opts ?E ''http://x/a'' None [WithMethod MethodGet]) = Some r4"
    by (simp add: Delete_opts_def WithUrl_def WithMethod_def WithParam_def WithBeforeRequest_def
          assign_all_def)
  have de: "map_option method_f
             (withOpt New (WithUrl ''http://x/a'' # Delete_opts ?E ''http://x/a'' None [WithMethod MethodGet]))
           = Some MethodDelete"
    using t' d by simp
  from a g po pu de show ?thesis by blast
qed

text \<open>
  Claim C2 as stated fails there: the record that builds the request has the method
  \<^verbatim>\<open>GET\<close>, and the request is built with it.
\<close>

theorem caller_method_overridden:
  "map_option (method_f \<circ> cfg)
     (Get (example_env (example_Response [] None)) New ''http://x/a'' Nil [WithMethod MethodPost])
     = Some ''GET'' \<and>
   map_option (take 1 \<circ> events)
     (Get (example_env (example_Response [] None)) New ''http://x/a'' Nil [WithMethod MethodPost])
     = Some [Ev_NewRequest ''GET'' ''http://x/a'' None]"
  by (simp add: pipeline_defs example_defs)

subsection \<open>C3: the body of Post and Put\<close>

text \<open>
  Claim C3, as amended, for a parameter map that is not \<^verbatim>\<open>nil\<close>. \<open>Post\<close> and \<open>Put\<close> merge
  the parameter map of the call into the map of the record, and their hook sets the body
  of the request to the JSON encoding of the map the record holds when the hook runs:
  the entries of the call laid over the entries the record held and those that other
  options have added. This is the encoding of the parameter map of the call when the map
  of the record was empty before the merge and the hooks that run before leave it as it
  is. Here \<open>r0\<close> is the record after the options of the caller, \<open>m\<close> the map after the
  merge, and \<open>f\<close> the record after the hooks registered before the one of the call, on a
  new client or on one that has served calls before.
\<close>

theorem Post_Put_body_is_record_map:
  assumes "withOpt r (WithUrl u # opts) = Some r0"
    and "assign_all (Some kvs) (param r0) = Some (Some m)"
  shows
    "(\<forall>f m' data.
        run_hooks (beforeRequest r0) (fields_of (r0\<lparr>method_f := MethodPost, param := Some m\<rparr>))
          = (None, f) \<longrightarrow>
        param f = Some m' \<longrightarrow> Marshal E (Some m') = Inr data \<longrightarrow>
        (\<exists>r'. Post E r u (Some kvs) res opts = Some (dispatch E r' res) \<and>
              req_body (build_request r') = Some data)) \<and>
     (\<forall>f m' data.
        run_hooks (beforeRequest r0) (fields_of (r0\<lparr>method_f := MethodPut, param := Some m\<rparr>))
          = (None, f) \<longrightarrow>
        param f = Some m' \<longrightarrow> Marshal E (Some m') = Inr data \<longrightarrow>
        (\<exists>r'. Put E r u (Some kvs) res opts = Some (dispatch E r' res) \<and>
              req_body (build_request r') = Some data)) \<and>
     (param r0 = Some [] \<longrightarrow> distinct (map fst kvs) \<longrightarrow>
        Marshal E (Some m) = Marshal E (Some kvs))"
proof -
  have post: "\<exists>r'. Post E r u (Some kvs) res opts = Some (dispatch E r' res) \<and>
              req_body (build_request r') = Some data"
    if "run_hooks (beforeRequest r0) (fields_of (r0\<lparr>method_f := MethodPost, param := Some m\<rparr>))
          = (None, f)"
      and "param f = Some m'" and "Marshal E (Some m') = Inr data" for f m' data
    using body_hook_after_options [OF assms that, of res "''post json ma err, param: %s, ''"]
    unfolding Post_def Post_opts_def Post_hook_def
    by (intro exI conjI, assumption) (simp add: build_request_def)
  have put: "\<exists>r'. Put E r u (Some kvs) res opts = Some (dispatch E r' res) \<and>
              req_body (build_request r') = Some data"
    if "run_hooks (beforeRequest r0) (fields_of (r0\<lparr>method_f := MethodPut, param := Some m\<rparr>))
          = (None, f)"
      and "param f = Some m'" and "Marshal E (Some m') = Inr data" for f m' data
    using body_hook_after_options [OF assms that, of res "''put json ma err, param: %s, ''"]
    unfolding Put_def Put_opts_def Put_hook_def
    by (intro exI conjI, assumption) (simp add: build_request_def)
  have exact: "Marshal E (Some m) = Marshal E (Some kvs)"
    if e: "param r0 = Some []" and d: "distinct (map fst kvs)"
  proof -
    have "m = fold (\<lambda>(k, v). AList.update k v) kvs []"
      using assms(2) by (simp add: e assign_all_Some)
    then have "sort_key fst m = sort_key fst kvs"
      using merge_into_empty [OF d] by simp
    then show ?thesis by (simp add: Marshal_def)
  qed
  show ?thesis using post put exact by blast
qed

text \<open>
  The theorem at a \<open>Post\<close> of the map with the one entry \<^verbatim>\<open>n\<close>, \<^verbatim>\<open>1\<close>: on a new client, and
  on a client that has served a \<open>Get\<close> before and still holds its hook.
\<close>

theorem Post_Put_body_is_record_map_witness:
  "(\<exists>r'. Post (example_env (example_Response [] None)) New ''http://x/b'' (Some [(''n'', ''1'')]) Nil []
          = Some (dispatch (example_env (example_Response [] None)) r' Nil) \<and>
         req_body (build_request r') = Some (''{'' @ quote ''n'' @ '':'' @ quote ''1'' @ ''}'')) \<and>
   (\<exists>r'. Get_then_Post (example_env (example_Response [] None)) New ''http://x/a'' ''http://x/b''
            (Some [(''n'', ''1'')])
          = Some (dispatch (example_env (example_Response [] None)) r' Nil) \<and>
         req_body (build_request r') = Some (''{'' @ quote ''n'' @ '':'' @ quote ''1'' @ ''}'')) \<and>
   Marshal (example_env (example_Response [] None)) (Some [(''n'', ''1'')])
     = Inr (''{'' @ quote ''n'' @ '':'' @ quote ''1'' @ ''}'')"
proof -
  let ?E = "example_env (example_Response [] None)"
  let ?P = "[(''n'', ''1'')] :: (string \<times> string) list"
  let ?data = "''{'' @ quote ''n'' @ '':'' @ quote ''1'' @ ''}''"
  have d: "Marshal ?E (Some ?P) = Inr ?data"
    by (simp add: Marshal_def example_defs)
  \<comment> \<open>a new client\<close>
  let ?r0 = "(New :: string parameter)\<lparr>url := ''http://x/b''\<rparr>"
  have a: "withOpt New (WithUrl ''http://x/b'' # []) = Some ?r0"
    by (simp add: WithUrl_def)
  have c: "assign_all (Some ?P) (param ?r0) = Some (Some ?P)"
    by (simp add: New_def assign_all_def)
  have h: "\<exists>f. run_hooks (beforeRequest ?r0) (fields_of (?r0\<lparr>method_f := MethodPost, param := Some ?P\<rparr>))
             = (None, f) \<and> param f = Some ?P"
    by (simp add: New_def)
  have one: "\<exists>r'. Post ?E New ''http://x/b'' (Some ?P) Nil [] = Some (dispatch ?E r' Nil) \<and>
         req_body (build_request r') = Some ?data"
    using Post_Put_body_is_record_map [OF a c, of ?E Nil] h d by blast
  \<comment> \<open>the client after a call of Get\<close>
  let ?r1 = "(New :: string parameter)\<lparr>url := ''http://x/a'', beforeRequest := [Get_hook ?E ''http://x/a'']\<rparr>"
  let ?r0' = "?r1\<lparr>url := ''http://x/b''\<rparr>"
  have seq: "Get_then_Post ?E New ''http://x/a'' ''http://x/b'' (Some ?P)
               = Post ?E ?r1 ''http://x/b'' (Some ?P) Nil []"
    using example_after_Get by (auto simp: Get_then_Post_def)
  have a': "withOpt ?r1 (WithUrl ''http://x/b'' # []) = Some ?r0'"
    by (simp add: WithUrl_def)
  have c': "assign_all (Some ?P) (param ?r0') = Some (Some ?P)"
    by (simp add: New_def assign_all_def)
  have h': "\<exists>f. run_hooks (beforeRequest ?r0') (fields_of (?r0'\<lparr>method_f := MethodPost, param := Some ?P\<rparr>))
             = (None, f) \<and> param f = Some ?P"
    by (simp add: New_def Get_hook_def rewrite_url_def example_defs)
  have two: "\<exists>r'. Get_then_Post ?E New ''http://x/a'' ''http://x/b'' (Some ?P) = Some (dispatch ?E r' Nil) \<and>
         req_body (build_request r') = Some ?data"
    unfolding seq
    using Post_Put_body_is_record_map [OF a' c', of ?E Nil] h' d by blast
  from one two d show ?thesis by blast
qed

text \<open>
  Claim C3 as stated fails where the caller adds a parameter of its own: \<open>Post\<close> of the
  map with the entry \<^verbatim>\<open>n\<close>, \<^verbatim>\<open>1\<close> and the option \<open>WithParam\<close> with the entry \<^verbatim>\<open>m\<close>, \<^verbatim>\<open>2\<close>
  builds its request with the encoding of both entries, which is not the encoding of the
  parameter map of the call.
\<close>

theorem extra_param_Post_body:
  "map_option (take 1 \<circ> events)
     (Post (example_env (example_Response [] None)) New ''http://x/b'' (Some [(''n'', ''1'')]) Nil
        [WithParam (Some [(''m'', ''2'')])])
     = Some [Ev_NewRequest ''POST'' ''http://x/b''
               (Some (''{'' @ quote ''m'' @ '':'' @ quote ''2'' @ '','' @ quote ''n'' @ '':'' @ quote ''1'' @ ''}''))] \<and>
   Marshal (example_env (example_Response [] None)) (Some [(''n'', ''1'')])
     = Inr (''{'' @ quote ''n'' @ '':'' @ quote ''1'' @ ''}'')"
  by (simp add: pipeline_defs example_defs)

subsection \<open>C4: the body and the query of Delete\<close>

text \<open>
  Claim C4, as amended, for a parameter map that is not \<^verbatim>\<open>nil\<close>. \<open>Delete\<close> merges the
  parameter map of the call into the map of the record, and its hook sets the body of the
  request to the JSON encoding of the map the record holds when the hook runs. When the
  flag of the record is set and the \<^verbatim>\<open>url\<close> argument parses, the hook also sets the URL to
  the parsed argument with the entries of that map, sorted by key and escaped, as its
  query; when the flag is not set, the hook sets the body only and leaves the URL as it
  finds it. Body and query are those of the parameter map of the call when the map of the
  record was empty before the merge and the hooks that run before leave it as it is.
  Here \<open>r0\<close> is the record after the options of the caller, \<open>m\<close> the map after the merge,
  and \<open>f\<close> the record after the hooks registered before the one of the call, on a new
  client or on one that has served calls before.
\<close>

theorem Delete_body_and_query:
  assumes "withOpt r (WithUrl u # opts) = Some r0"
    and "assign_all (Some kvs) (param r0) = Some (Some m)"
    and "run_hooks (beforeRequest r0) (fields_of (r0\<lparr>method_f := MethodDelete, param := Some m\<rparr>))
           = (None, f)"
    and "param f = Some m'" and "distinct (map fst m')"
    and "Marshal E (Some m') = Inr data"
  shows
    "(deleteUriFlag f \<longrightarrow> (\<forall>netUrl. url_Parse E u = Inr netUrl \<longrightarrow>
        (\<exists>r'. Delete E r u (Some kvs) res opts = Some (dispatch E r' res) \<and>
              req_body (build_request r') = Some data \<and>
              req_url (build_request r') =
                URL_String E (netUrl\<lparr>RawQuery :=
                  sorted_query (map (\<lambda>(k, v). (k, Strval E v)) m')\<rparr>)))) \<and>
     (\<not> deleteUriFlag f \<longrightarrow>
        (\<exists>r'. Delete E r u (Some kvs) res opts = Some (dispatch E r' res) \<and>
              req_body (build_request r') = Some data \<and>
              req_url (build_request r') = url f)) \<and>
     (param r0 = Some [] \<longrightarrow> m' = m \<longrightarrow> distinct (map fst kvs) \<longrightarrow>
        Marshal E (Some kvs) = Inr data \<and>
        sorted_query (map (\<lambda>(k, v). (k, Strval E v)) m')
          = sorted_query (map (\<lambda>(k, v). (k, Strval E v)) kvs))"
proof -
  have q: "Values_Encode (query_values E (Some m')) = sorted_query (map (\<lambda>(k, v). (k, Strval E v)) m')"
    using assms(5) by (simp only: query_values_distinct entries.simps Values_Encode_singletons)
  have on: "\<exists>r'. Delete E r u (Some kvs) res opts = Some (dispatch E r' res) \<and>
              req_body (build_request r') = Some data \<and>
              req_url (build_request r') =
                URL_String E (netUrl\<lparr>RawQuery :=
                  sorted_query (map (\<lambda>(k, v). (k, Strval E v)) m')\<rparr>)"
    if flag: "deleteUriFlag f" and parse: "url_Parse E u = Inr netUrl" for netUrl
  proof -
    let ?g = "f\<lparr>body := Some data,
                 url := URL_String E (netUrl\<lparr>RawQuery :=
                          sorted_query (map (\<lambda>(k, v). (k, Strval E v)) m')\<rparr>)\<rparr>"
    have rw: "(if deleteUriFlag f then rewrite_url E u (f\<lparr>body := Some data\<rparr>)
               else (None, f\<lparr>body := Some data\<rparr>)) = (None, ?g)"
      using flag rewrite_url_ok [OF parse, of "f\<lparr>body := Some data\<rparr>"] q assms(4) by simp
    show ?thesis
      using Delete_after_options [OF assms(1,2,3,4,6) rw, of res]
      by (intro exI conjI, assumption) (simp_all add: build_request_def)
  qed
  have off: "\<exists>r'. Delete E r u (Some kvs) res opts = Some (dispatch E r' res) \<and>
              req_body (build_request r') = Some data \<and>
              req_url (build_request r') = url f"
    if flag: "\<not> deleteUriFlag f"
  proof -
    have rw: "(if deleteUriFlag f then rewrite_url E u (f\<lparr>body := Some data\<rparr>)
               else (None, f\<lparr>body := Some data\<rparr>)) = (None, f\<lparr>body := Some data\<rparr>)"
      using flag by simp
    show ?thesis
      using Delete_after_options [OF assms(1,2,3,4,6) rw, of res]
      by (intro exI conjI, assumption) (simp_all add: build_request_def)
  qed
  have exact: "Marshal E (Some kvs) = Inr data \<and>
        sorted_query (map (\<lambda>(k, v). (k, Strval E v)) m')
          = sorted_query (map (\<lambda>(k, v). (k, Strval E v)) kvs)"
    if e: "param r0 = Some []" and mm: "m' = m" and d: "distinct (map fst kvs)"
  proof -
    have m: "m = fold (\<lambda>(k, v). AList.update k v) kvs []"
      using assms(2) by (simp add: e assign_all_Some)
    have srt: "sort_key fst m = sort_key fst kvs"
      unfolding m by (rule merge_into_empty [OF d])
    have mar: "Marshal E (Some kvs) = Inr data"
      using assms(6) by (simp add: Marshal_def mm srt)
    have mo: "map_of m = map_of kvs"
      unfolding m by (simp add: map_of_fold_update [OF d])
    have "sorted_query (map (\<lambda>(k, v). (k, Strval E v)) m)
            = sorted_query (map (\<lambda>(k, v). (k, Strval E v)) kvs)"
      using assms(5) d mo unfolding mm by (rule sorted_query_map_cong)
    with mar show ?thesis by (simp add: mm)
  qed
  show ?thesis using on off exact by blast
qed

text \<open>
  The theorem at a \<open>Delete\<close> of the map with the one entry \<^verbatim>\<open>id\<close>, \<^verbatim>\<open>7\<close>: on a new client,
  with the flag as \<open>New\<close> sets it and with \<open>WithDeleteURIFlag False\<close>, and with both on a
  client that has served a \<open>Get\<close> of \<^verbatim>\<open>http://x/a\<close> before (the record is the one of
  \<open>example_after_Get\<close>). There the hook of the earlier call runs first and rewrites the
  URL; with the flag set the hook of \<open>Delete\<close> replaces that URL, without the flag it
  leaves it.
\<close>

theorem Delete_body_and_query_witness:
  "(\<exists>r'. Delete (example_env (example_Response [] None)) New ''http://x/c'' (Some [(''id'', ''7'')]) Nil []
          = Some (dispatch (example_env (example_Response [] None)) r' Nil) \<and>
         req_body (build_request r') = Some (''{'' @ quote ''id'' @ '':'' @ quote ''7'' @ ''}'') \<and>
         req_url (build_request r') = ''http://x/c?id=7'') \<and>
   (\<exists>r'. Delete (example_env (example_Response [] None)) New ''http://x/c'' (Some [(''id'', ''7'')]) Nil
            [WithDeleteURIFlag False]
          = Some (dispatch (example_env (example_Response [] None)) r' Nil) \<and>
         req_body (build_request r') = Some (''{'' @ quote ''id'' @ '':'' @ quote ''7'' @ ''}'') \<and>
         req_url (build_request r') = ''http://x/c'') \<and>
   (\<exists>r'. Delete (example_env (example_Response [] None))
            (New\<lparr>url := ''http://x/a'',
                 beforeRequest := [Get_hook (example_env (example_Response [] None)) ''http://x/a'']\<rparr>)
            ''http://x/c'' (Some [(''id'', ''7'')]) Nil []
          = Some (dispatch (example_env (example_Response [] None)) r' Nil) \<and>
         req_body (build_request r') = Some (''{'' @ quote ''id'' @ '':'' @ quote ''7'' @ ''}'') \<and>
         req_url (build_request r') = ''http://x/c?id=7'') \<and>
   (\<exists>r'. Delete (example_env (example_Response [] None))
            (New\<lparr>url := ''http://x/a'',
                 beforeRequest := [Get_hook (example_env (example_Response [] None)) ''http://x/a'']\<rparr>)
            ''http://x/c'' (Some [(''id'', ''7'')]) Nil [WithDeleteURIFlag False]
          = Some (dispatch (example_env (example_Response [] None)) r' Nil) \<and>
         req_body (build_request r') = Some (''{'' @ quote ''id'' @ '':'' @ quote ''7'' @ ''}'') \<and>
         req_url (build_request r') = ''http://x/a?id=7'') \<and>
   Marshal (example_env (example_Response [] None)) (Some [(''id'', ''7'')])
     = Inr (''{'' @ quote ''id'' @ '':'' @ quote ''7'' @ ''}'')"
proof -
  let ?E = "example_env (example_Response [] None)"
  let ?P = "[(''id'', ''7'')] :: (string \<times> string) list"
  let ?data = "''{'' @ quote ''id'' @ '':'' @ quote ''7'' @ ''}''"
  let ?u = "\<lparr>Scheme = ''http'', Host = ''x'', Path = ''/c'', ForceQuery = False,
             RawQuery = [], Fragment = []\<rparr>"
  have d: "Marshal ?E (Some ?P) = Inr ?data"
    by (simp add: Marshal_def example_defs)
  have dist: "distinct (map fst ?P)" by simp
  have parse: "url_Parse ?E ''http://x/c'' = Inr ?u"
    by (simp add: example_defs)
  have str: "URL_String ?E (?u\<lparr>RawQuery := sorted_query (map (\<lambda>(k, v). (k, Strval ?E v)) ?P)\<rparr>)
               = ''http://x/c?id=7''"
    by (simp add: example_defs sorted_query_def QueryEscape_def escape_byte_def
          shouldEscape_def isAlnum_def upperhex_def)
  \<comment> \<open>a new client, the flag as it is made\<close>
  let ?r0 = "(New :: string parameter)\<lparr>url := ''http://x/c''\<rparr>"
  let ?f = "fields_of (?r0\<lparr>method_f := MethodDelete, param := Some ?P\<rparr>)"
  have a: "withOpt New (WithUrl ''http://x/c'' # []) = Some ?r0"
    by (simp add: WithUrl_def)
  have c: "assign_all (Some ?P) (param ?r0) = Some (Some ?P)"
    by (simp add: New_def assign_all_def)
  have h: "run_hooks (beforeRequest ?r0) (fields_of (?r0\<lparr>method_f := MethodDelete, param := Some ?P\<rparr>))
             = (None, ?f)"
    by (simp add: New_def)
  have pf: "param ?f = Some ?P" and on: "deleteUriFlag ?f"
    by (simp_all add: New_def)
  have one: "\<exists>r'. Delete ?E New ''http://x/c'' (Some ?P) Nil [] = Some (dispatch ?E r' Nil) \<and>
         req_body (build_request r') = Some ?data \<and>
         req_url (build_request r') = ''http://x/c?id=7''"
    using Delete_body_and_query [OF a c h pf dist d, of Nil] on parse
    unfolding str [symmetric] by blast
  \<comment> \<open>a new client, the flag taken back by the caller\<close>
  let ?r0' = "(New :: string parameter)\<lparr>url := ''http://x/c'', deleteUriFlag := False\<rparr>"
  let ?f' = "fields_of (?r0'\<lparr>method_f := MethodDelete, param := Some ?P\<rparr>)"
  have a': "withOpt New (WithUrl ''http://x/c'' # [WithDeleteURIFlag False]) = Some ?r0'"
    by (simp add: WithUrl_def WithDeleteURIFlag_def)
  have c': "assign_all (Some ?P) (param ?r0') = Some (Some ?P)"
    by (simp add: New_def assign_all_def)
  have h': "run_hooks (beforeRequest ?r0') (fields_of (?r0'\<lparr>method_f := MethodDelete, param := Some ?P\<rparr>))
             = (None, ?f')"
    by (simp add: New_def)
  have pf': "param ?f' = Some ?P" and off: "\<not> deleteUriFlag ?f'" and uf': "url ?f' = ''http://x/c''"
    by (simp_all add: New_def)
  have two: "\<exists>r'. Delete ?E New ''http://x/c'' (Some ?P) Nil [WithDeleteURIFlag False]
                = Some (dispatch ?E r' Nil) \<and>
         req_body (build_request r') = Some ?data \<and>
         req_url (build_request r') = ''http://x/c''"
    using Delete_body_and_query [OF a' c' h' pf' dist d, of Nil] off
    unfolding uf' by blast
  \<comment> \<open>the client after a call of Get\<close>
  let ?r1 = "(New :: string parameter)\<lparr>url := ''http://x/a'', beforeRequest := [Get_hook ?E ''http://x/a'']\<rparr>"
  let ?q0 = "?r1\<lparr>url := ''http://x/c''\<rparr>"
  have a2: "withOpt ?r1 (WithUrl ''http://x/c'' # []) = Some ?q0"
    by (simp add: WithUrl_def)
  have c2: "assign_all (Some ?P) (param ?q0) = Some (Some ?P)"
    by (simp add: New_def assign_all_def)
  obtain g where h2: "run_hooks (beforeRequest ?q0) (fields_of (?q0\<lparr>method_f := MethodDelete, param := Some ?P\<rparr>))
             = (None, g)" and pg: "param g = Some ?P" and og: "deleteUriFlag g"
    by (simp add: New_def Get_hook_def rewrite_url_def example_defs)
  have three: "\<exists>r'. Delete ?E ?r1 ''http://x/c'' (Some ?P) Nil [] = Some (dispatch ?E r' Nil) \<and>
         req_body (build_request r') = Some ?data \<and>
         req_url (build_request r') = ''http://x/c?id=7''"
    using Delete_body_and_query [OF a2 c2 h2 pg dist d, of Nil] og parse
    unfolding str [symmetric] by blast
  \<comment> \<open>the client after a call of Get, the flag taken back: the URL is the one the hook of
    the earlier call has left\<close>
  let ?q0' = "?r1\<lparr>url := ''http://x/c'', deleteUriFlag := False\<rparr>"
  have a3: "withOpt ?r1 (WithUrl ''http://x/c'' # [WithDeleteURIFlag False]) = Some ?q0'"
    by (simp add: WithUrl_def WithDeleteURIFlag_def)
  have c3: "assign_all (Some ?P) (param ?q0') = Some (Some ?P)"
    by (simp add: New_def assign_all_def)
  obtain g' where h3: "run_hooks (beforeRequest ?q0')
               (fields_of (?q0'\<lparr>method_f := MethodDelete, param := Some ?P\<rparr>)) = (None, g')"
    and pg': "param g' = Some ?P" and og': "\<not> deleteUriFlag g'" and ug': "url g' = ''http://x/a?id=7''"
    by (simp add: New_def Get_hook_def rewrite_url_def example_defs query_values_def
          Values_Encode_def write_pair_def QueryEscape_def escape_byte_def shouldEscape_def
          isAlnum_def upperhex_def)
  have four: "\<exists>r'. Delete ?E ?r1 ''http://x/c'' (Some ?P) Nil [WithDeleteURIFlag False]
                = Some (dispatch ?E r' Nil) \<and>
         req_body (build_request r') = Some ?data \<and>
         req_url (build_request r') = ''http://x/a?id=7''"
    using Delete_body_and_query [OF a3 c3 h3 pg' dist d, of Nil] og'
    unfolding ug' by blast
  from one two three four d show ?thesis by blast
qed

text \<open>
  Claim C4 as stated fails where the caller adds a parameter of its own: \<open>Delete\<close> of the
  map with the entry \<^verbatim>\<open>id\<close>, \<^verbatim>\<open>7\<close> and the option \<open>WithParam\<close> with the entry \<^verbatim>\<open>m\<close>, \<^verbatim>\<open>2\<close>
  builds its request with body and query of both entries, which are not the encoding and
  the query of the parameter map of the call.
\<close>

theorem extra_param_Delete_body:
  "map_option (take 1 \<circ> events)
     (Delete (example_env (example_Response [] None)) New ''http://x/c'' (Some [(''id'', ''7'')]) Nil
        [WithParam (Some [(''m'', ''2'')])])
     = Some [Ev_NewRequest ''DELETE'' ''http://x/c?id=7&m=2''
               (Some (''{'' @ quote ''id'' @ '':'' @ quote ''7'' @ '','' @ quote ''m'' @ '':'' @ quote ''2'' @ ''}''))] \<and>
   Marshal (example_env (example_Response [] None)) (Some [(''id'', ''7'')])
     = Inr (''{'' @ quote ''id'' @ '':'' @ quote ''7'' @ ''}'') \<and>
   sorted_query [(''id'', ''7'')] = ''id=7''"
  by (simp add: pipeline_defs example_defs sorted_query_def)

subsection \<open>C5: the query of Get\<close>

text \<open>
  Claim C5. When the options do not panic, the hooks registered before the one of
  \<open>Get\<close> succeed and the \<^verbatim>\<open>url\<close> argument parses, the URL of the request of \<open>Get\<close> is the
  parsed argument with this query: the parameters the record holds when the hook runs,
  sorted by key, each written as the escaped key, \<^verbatim>\<open>=\<close> and the escaped \<open>Strval\<close> of the
  value, joined with \<^verbatim>\<open>&\<close>. The keys of a map are pairwise different.
\<close>

theorem Get_query_sorted:
  assumes "withOpt r (WithUrl u # opts) = Some r0"
    and "run_hooks (beforeRequest r0) (fields_of (r0\<lparr>method_f := MethodGet\<rparr>)) = (None, f)"
    and "distinct (map fst (entries (param f)))"
    and "url_Parse E u = Inr netUrl"
  shows "\<exists>r'. Get E r u res opts = Some (dispatch E r' res) \<and>
              req_url (build_request r') =
                URL_String E (netUrl\<lparr>RawQuery :=
                  sorted_query (map (\<lambda>(k, v). (k, Strval E v)) (entries (param f)))\<rparr>)"
proof -
  have "Values_Encode (query_values E (param f))
          = sorted_query (map (\<lambda>(k, v). (k, Strval E v)) (entries (param f)))"
    using assms(3) by (simp only: query_values_distinct Values_Encode_singletons)
  with Get_after_options [OF assms(1,2,4), of res]
  have "Get E r u res opts =
          Some (dispatch E
            (store_fields (f\<lparr>url := URL_String E (netUrl\<lparr>RawQuery :=
                sorted_query (map (\<lambda>(k, v). (k, Strval E v)) (entries (param f)))\<rparr>)\<rparr>)
               (r0\<lparr>method_f := MethodGet, beforeRequest := beforeRequest r0 @ [Get_hook E u]\<rparr>)) res)"
    by simp
  then show ?thesis
    by (intro exI conjI, assumption) (simp add: build_request_def)
qed

text \<open>
  The theorem at a \<open>Get\<close> on a new client with two parameters, given out of order and in
  need of escaping.
\<close>

theorem Get_query_sorted_witness:
  "(\<exists>r'. Get (example_env (example_Response [] None)) New ''http://x/a'' Nil
            [WithParam (Some [(''q'', ''1''), (''a b'', ''x/y'')])]
          = Some (dispatch (example_env (example_Response [] None)) r' Nil) \<and>
         req_url (build_request r') = ''http://x/a?a+b=x%2Fy&q=1'')"
proof -
  let ?E = "example_env (example_Response [] None)"
  let ?opts = "[WithParam (Some [(''q'', ''1''), (''a b'', ''x/y'')])] :: string optionFunc list"
  let ?r0 = "(New :: string parameter)\<lparr>url := ''http://x/a'',
               param := Some [(''q'', ''1''), (''a b'', ''x/y'')]\<rparr>"
  let ?f = "fields_of (?r0\<lparr>method_f := MethodGet\<rparr>)"
  let ?u = "\<lparr>Scheme = ''http'', Host = ''x'', Path = ''/a'', ForceQuery = False,
             RawQuery = [], Fragment = []\<rparr>"
  have a: "withOpt New (WithUrl ''http://x/a'' # ?opts) = Some ?r0"
    by (simp add: WithUrl_def WithParam_def assign_all_def New_def)
  have b: "run_hooks (beforeRequest ?r0) (fields_of (?r0\<lparr>method_f := MethodGet\<rparr>)) = (None, ?f)"
    by (simp add: New_def)
  have c: "distinct (map fst (entries (param ?f)))"
    by simp
  have d: "url_Parse ?E ''http://x/a'' = Inr ?u"
    by (simp add: example_defs)
  have e: "URL_String ?E (?u\<lparr>RawQuery :=
              sorted_query (map (\<lambda>(k, v). (k, Strval ?E v)) (entries (param ?f)))\<rparr>)
            = ''http://x/a?a+b=x%2Fy&q=1''"
    by (simp add: example_defs sorted_query_def QueryEscape_def escape_byte_def
          shouldEscape_def isAlnum_def upperhex_def)
  from Get_query_sorted [OF a b c d, of Nil]
  show ?thesis unfolding e .
qed

subsection \<open>C6: decoding the response body\<close>

text \<open>
  Claim C6, as amended: the claim holds when closing the response body returns no
  error, and when it returns one the call returns the error of the deferred function,
  which wraps the error of \<^verbatim>\<open>Close\<close> and carries the text of the error of decoding, if
  there is one. For a response whose body is read without error and is not empty, and a
  result target that is not the \<^verbatim>\<open>nil\<close> interface, decoding ends with an error \<open>e\<close> or
  none: a body that is valid JSON is handed to \<open>json_Unmarshal\<close> with the target, and \<open>e\<close>
  is its error, wrapped, or none; for any other body \<open>e\<close> is
  \<^verbatim>\<open>result must be a pointer\<close> for a target that is not a pointer,
  \<^verbatim>\<open>result must be a string\<close> for a pointer whose element is not of kind string (a
  \<^verbatim>\<open>nil\<close> pointer has no element), \<^verbatim>\<open>result can not set\<close> for a string that cannot be
  set, and for a string that can be set the body is stored in it and \<open>e\<close> is none. Here
  \<open>r2\<close> is the record after options and hooks.
\<close>

theorem decode_decision_tree:
  assumes "prepare r u opts = Some (None, r2)"
    and "NewRequestWithContext E (method_f r2) (url r2) = None"
    and "client_Do E (tLSClientConfig r2) (timeout r2) (build_request r2) = Inr resp"
    and "read_err (resp_Body resp) = None"
    and "content (resp_Body resp) = b" and "b \<noteq> []"
    and "res \<noteq> Nil"
  shows "\<exists>out e. request E r u res opts = Some out \<and>
      err out =
        (case close_err (resp_Body resp) of
           None \<Rightarrow> e
         | Some closeErr \<Rightarrow>
             Some (Wrapf (''resp body close err, ''
                            @ (case e of None \<Rightarrow> [] | Some e' \<Rightarrow> ''('' @ Error_text e' @ '')'')
                            @ '' '') closeErr)) \<and>
      (json_Valid E b \<longrightarrow>
         target out = snd (json_Unmarshal E b res) \<and>
         e = map_option (Wrapf ''request json un err, result: %v, '')
               (fst (json_Unmarshal E b res))) \<and>
      (\<not> json_Valid E b \<longrightarrow>
         (\<forall>v. res = NonPointer v \<longrightarrow>
            e = Some (Errorf ''result must be a pointer'') \<and> target out = res) \<and>
         (res = NilPointer \<longrightarrow>
            e = Some (Errorf ''result must be a string'') \<and> target out = res) \<and>
         (\<forall>c v. res = Pointer c (Other_val v) \<longrightarrow>
            e = Some (Errorf ''result must be a string'') \<and> target out = res) \<and>
         (\<forall>s. res = Pointer False (String_val s) \<longrightarrow>
            e = Some (Errorf ''result can not set'') \<and> target out = res) \<and>
         (\<forall>s. res = Pointer True (String_val s) \<longrightarrow>
            e = None \<and> target out = Pointer True (String_val b)))"
proof -
  let ?e = "fst (decode E b res)"
  have d: "target (dispatch E r2 res) = snd (decode E b res)"
          "err (dispatch E r2 res) = close_body (resp_Body resp) ?e"
    using dispatch_decode [OF assms(2-7)] by simp_all
  have cl: "err (dispatch E r2 res) =
        (case close_err (resp_Body resp) of
           None \<Rightarrow> ?e
         | Some closeErr \<Rightarrow>
             Some (Wrapf (''resp body close err, ''
                            @ (case ?e of None \<Rightarrow> [] | Some e' \<Rightarrow> ''('' @ Error_text e' @ '')'')
                            @ '' '') closeErr))"
    unfolding d by (simp add: close_body_def Let_def split: option.splits)
  have valid: "target (dispatch E r2 res) = snd (json_Unmarshal E b res) \<and>
         ?e = map_option (Wrapf ''request json un err, result: %v, '')
                     (fst (json_Unmarshal E b res))"
    if "json_Valid E b"
    using that unfolding d by (simp add: decode_def split: prod.splits option.splits)
  have invalid: "decode E b res = set_string b res" if "\<not> json_Valid E b"
    using that by (simp add: decode_def)
  have rest: "\<not> json_Valid E b \<longrightarrow>
         (\<forall>v. res = NonPointer v \<longrightarrow>
            ?e = Some (Errorf ''result must be a pointer'') \<and>
            target (dispatch E r2 res) = res) \<and>
         (res = NilPointer \<longrightarrow>
            ?e = Some (Errorf ''result must be a string'') \<and>
            target (dispatch E r2 res) = res) \<and>
         (\<forall>c v. res = Pointer c (Other_val v) \<longrightarrow>
            ?e = Some (Errorf ''result must be a string'') \<and>
            target (dispatch E r2 res) = res) \<and>
         (\<forall>s. res = Pointer False (String_val s) \<longrightarrow>
            ?e = Some (Errorf ''result can not set'') \<and>
            target (dispatch E r2 res) = res) \<and>
         (\<forall>s. res = Pointer True (String_val s) \<longrightarrow>
            ?e = None \<and>
            target (dispatch E r2 res) = Pointer True (String_val b))"
  proof
    assume nv: "\<not> json_Valid E b"
    have e: "?e = fst (set_string b res)"
            "target (dispatch E r2 res) = snd (set_string b res)"
      using d invalid [OF nv] by simp_all
    show "(\<forall>v. res = NonPointer v \<longrightarrow>
            ?e = Some (Errorf ''result must be a pointer'') \<and>
            target (dispatch E r2 res) = res) \<and>
         (res = NilPointer \<longrightarrow>
            ?e = Some (Errorf ''result must be a string'') \<and>
            target (dispatch E r2 res) = res) \<and>
         (\<forall>c v. res = Pointer c (Other_val v) \<longrightarrow>
            ?e = Some (Errorf ''result must be a string'') \<and>
            target (dispatch E r2 res) = res) \<and>
         (\<forall>s. res = Pointer False (String_val s) \<longrightarrow>
            ?e = Some (Errorf ''result can not set'') \<and>
            target (dispatch E r2 res) = res) \<and>
         (\<forall>s. res = Pointer True (String_val s) \<longrightarrow>
            ?e = None \<and>
            target (dispatch E r2 res) = Pointer True (String_val b))"
      unfolding e by auto
  qed
  show ?thesis
    using request_dispatch [OF assms(1), of E res] cl valid rest
    by (intro exI [of _ "dispatch E r2 res"] exI [of _ ?e]) blast
qed

text \<open>
  The theorem at calls of \<open>Get\<close> on a new client that are answered with the body
  \<^verbatim>\<open>plain\<close>, for five targets, with the body \<^verbatim>\<open>{}\<close>, and with the body \<^verbatim>\<open>plain\<close> and a
  failing \<^verbatim>\<open>Close\<close> for a target that is no string.
\<close>

theorem decode_decision_tree_witness:
  "map_option target
     (Get (example_env (example_Response ''plain'' None)) New ''http://x/a'' (Pointer True (String_val [])) [])
     = Some (Pointer True (String_val ''plain'')) \<and>
   map_option err
     (Get (example_env (example_Response ''plain'' None)) New ''http://x/a'' (Pointer True (String_val [])) [])
     = Some None \<and>
   map_option err
     (Get (example_env (example_Response ''plain'' None)) New ''http://x/a'' (Pointer True (Other_val ''0'')) [])
     = Some (Some (Errorf ''result must be a string'')) \<and>
   map_option err
     (Get (example_env (example_Response ''plain'' None)) New ''http://x/a'' (NonPointer ''0'') [])
     = Some (Some (Errorf ''result must be a pointer'')) \<and>
   map_option err
     (Get (example_env (example_Response ''plain'' None)) New ''http://x/a'' (Pointer False (String_val [])) [])
     = Some (Some (Errorf ''result can not set'')) \<and>
   map_option err
     (Get (example_env (example_Response ''plain'' None)) New ''http://x/a'' NilPointer [])
     = Some (Some (Errorf ''result must be a string'')) \<and>
   map_option target
     (Get (example_env (example_Response ''{}'' None)) New ''http://x/a'' (Pointer True (Other_val ''0'')) [])
     = Some (Pointer True (Other_val ''{}'')) \<and>
   map_option err
     (Get (example_env (example_Response ''plain'' (Some (Errorf ''close failed'')))) New ''http://x/a''
        (Pointer True (Other_val ''0'')) [])
     = Some (Some (Wrapf ''resp body close err, (result must be a string) '' (Errorf ''close failed'')))"
proof -
  let ?resp = "example_Response ''plain'' None"
  let ?E = "example_env ?resp"
  let ?r2 = "(New :: string parameter)\<lparr>url := ''http://x/a'', method_f := MethodGet,
                        beforeRequest := [Get_hook ?E ''http://x/a'']\<rparr>"
  have b: "NewRequestWithContext ?E (method_f ?r2) (url ?r2) = None"
    and c: "client_Do ?E (tLSClientConfig ?r2) (timeout ?r2) (build_request ?r2) = Inr ?resp"
    by (simp_all add: example_env_def)
  have d: "read_err (resp_Body ?resp) = None" and e: "content (resp_Body ?resp) = ''plain''"
    and g: "close_err (resp_Body ?resp) = None" and ne: "''plain'' \<noteq> []"
    by (simp_all add: example_Response_def)
  have nv: "\<not> json_Valid ?E ''plain''"
    by (simp add: example_env_def example_Valid_def)
  note t = decode_decision_tree [OF example_prepare_Get b c d e ne]
  have 1: "map_option target (Get ?E New ''http://x/a'' (Pointer True (String_val [])) [])
             = Some (Pointer True (String_val ''plain'')) \<and>
           map_option err (Get ?E New ''http://x/a'' (Pointer True (String_val [])) []) = Some None"
    using t [of "Pointer True (String_val [])"] nv g by (auto simp: Get_def)
  have 2: "map_option err (Get ?E New ''http://x/a'' (Pointer True (Other_val ''0'')) [])
             = Some (Some (Errorf ''result must be a string''))"
    using t [of "Pointer True (Other_val ''0'')"] nv g by (auto simp: Get_def)
  have 3: "map_option err (Get ?E New ''http://x/a'' (NonPointer ''0'') [])
             = Some (Some (Errorf ''result must be a pointer''))"
    using t [of "NonPointer ''0''"] nv g by (auto simp: Get_def)
  have 4: "map_option err (Get ?E New ''http://x/a'' (Pointer False (String_val [])) [])
             = Some (Some (Errorf ''result can not set''))"
    using t [of "Pointer False (String_val [])"] nv g by (auto simp: Get_def)
  have 6: "map_option err (Get ?E New ''http://x/a'' NilPointer [])
             = Some (Some (Errorf ''result must be a string''))"
    using t [of NilPointer] nv g by (auto simp: Get_def)
  let ?resp' = "example_Response ''{}'' None"
  let ?E' = "example_env ?resp'"
  let ?r2' = "(New :: string parameter)\<lparr>url := ''http://x/a'', method_f := MethodGet,
                        beforeRequest := [Get_hook ?E' ''http://x/a'']\<rparr>"
  have b': "NewRequestWithContext ?E' (method_f ?r2') (url ?r2') = None"
    and c': "client_Do ?E' (tLSClientConfig ?r2') (timeout ?r2') (build_request ?r2') = Inr ?resp'"
    by (simp_all add: example_env_def)
  have d': "read_err (resp_Body ?resp') = None" and e': "content (resp_Body ?resp') = ''{}''"
    and g': "close_err (resp_Body ?resp') = None" and ne': "''{}'' \<noteq> []"
    by (simp_all add: example_Response_def)
  have v: "json_Valid ?E' ''{}''"
    by (simp add: example_env_def example_Valid_def)
  have 5: "map_option target (Get ?E' New ''http://x/a'' (Pointer True (Other_val ''0'')) [])
             = Some (Pointer True (Other_val ''{}''))"
    using decode_decision_tree [OF example_prepare_Get b' c' d' e' ne',
        of "Pointer True (Other_val ''0'')"] v g'
    by (auto simp: Get_def example_env_def)
  let ?respc = "example_Response ''plain'' (Some (Errorf ''close failed''))"
  let ?Ec = "example_env ?respc"
  let ?r2c = "(New :: string parameter)\<lparr>url := ''http://x/a'', method_f := MethodGet,
                        beforeRequest := [Get_hook ?Ec ''http://x/a'']\<rparr>"
  have bc: "NewRequestWithContext ?Ec (method_f ?r2c) (url ?r2c) = None"
    and cc: "client_Do ?Ec (tLSClientConfig ?r2c) (timeout ?r2c) (build_request ?r2c) = Inr ?respc"
    by (simp_all add: example_env_def)
  have dc: "read_err (resp_Body ?respc) = None" and ec: "content (resp_Body ?respc) = ''plain''"
    and gc: "close_err (resp_Body ?respc) = Some (Errorf ''close failed'')"
    by (simp_all add: example_Response_def)
  have nvc: "\<not> json_Valid ?Ec ''plain''"
    by (simp add: example_env_def example_Valid_def)
  have 7: "map_option err (Get ?Ec New ''http://x/a'' (Pointer True (Other_val ''0'')) [])
             = Some (Some (Wrapf ''resp body close err, (result must be a string) '' (Errorf ''close failed'')))"
    using decode_decision_tree [OF example_prepare_Get bc cc dc ec ne,
        of "Pointer True (Other_val ''0'')"] nvc gc
    by (auto simp: Get_def)
  from 1 2 3 4 5 6 7 show ?thesis by blast
qed

text \<open>
  Claim C6 as stated fails when closing the response body fails: the body \<^verbatim>\<open>plain\<close> is
  stored in a string that can be set, and the call returns the error of the deferred
  function, which wraps the error of \<^verbatim>\<open>Close\<close>.
\<close>

theorem close_error_after_string_result:
  "map_option err
     (Get (example_env (example_Response ''plain'' (Some (Errorf ''close failed'')))) New ''http://x/a''
        (Pointer True (String_val [])) [])
     = Some (Some (Wrapf ''resp body close err,  '' (Errorf ''close failed'')))"
  by (simp add: pipeline_defs example_defs)

subsection \<open>C7: applying an option twice, merging twice\<close>



subsection \<open>C8: a hook that fails\<close>

text \<open>
  Claim C8. When a hook of the record returns an error, after the hooks before it have
  succeeded, the call returns an error that wraps the error of the hook, no request is
  built and none is sent (the call has no events), the result target is untouched, and
  the record is as the failing hook has left it: the hooks after it have not run.
\<close>

theorem hook_error_aborts:
  assumes "withOpt r (WithUrl u # opts) = Some r1"
    and "beforeRequest r1 = hs @ h # hs'"
    and "run_hooks hs (fields_of r1) = (None, f)"
    and "h f = (Some e, f')"
  shows "request E r u res opts =
           Some \<lparr>err = Some (Wrapf ''request callback err, r: %v, '' e),
                 cfg = store_fields f' r1, target = res, captured = None, events = []\<rparr>"
proof -
  have "run_hooks (beforeRequest r1) (fields_of r1)
          = (Some (Wrapf ''request callback err, r: %v, '' e), f')"
    using assms(2-4) by (simp add: run_hooks_append)
  then show ?thesis
    using assms(1) by (simp add: request_def prepare_def)
qed

text \<open>
  The theorem at a call with three hooks, of which the second fails: the body that the
  first hook has set stays, the third hook has not set its own.
\<close>

theorem hook_error_aborts_witness:
  "map_option err
     (request (example_env (example_Response [] None)) New ''http://x/a'' Nil
        [WithBeforeRequest (marking_hook ''first''), WithBeforeRequest failing_hook,
         WithBeforeRequest (marking_hook ''third'')])
     = Some (Some (Wrapf ''request callback err, r: %v, '' (Errorf ''boom''))) \<and>
   map_option events
     (request (example_env (example_Response [] None)) New ''http://x/a'' Nil
        [WithBeforeRequest (marking_hook ''first''), WithBeforeRequest failing_hook,
         WithBeforeRequest (marking_hook ''third'')])
     = Some [] \<and>
   map_option (body \<circ> cfg)
     (request (example_env (example_Response [] None)) New ''http://x/a'' Nil
        [WithBeforeRequest (marking_hook ''first''), WithBeforeRequest failing_hook,
         WithBeforeRequest (marking_hook ''third'')])
     = Some (Some ''first'')"
proof -
  let ?opts = "[WithBeforeRequest (marking_hook ''first''), WithBeforeRequest failing_hook,
                WithBeforeRequest (marking_hook ''third'')] :: string optionFunc list"
  let ?r1 = "(New :: string parameter)\<lparr>url := ''http://x/a'',
               beforeRequest := [marking_hook ''first'', failing_hook, marking_hook ''third'']\<rparr>"
  let ?f = "SetBody (Some ''first'') (fields_of ?r1)"
  have a: "withOpt New (WithUrl ''http://x/a'' # ?opts) = Some ?r1"
    by (simp add: WithUrl_def WithBeforeRequest_def New_def)
  have b: "beforeRequest ?r1 = [marking_hook ''first''] @ failing_hook # [marking_hook ''third'']"
    by simp
  have c: "run_hooks [marking_hook ''first''] (fields_of ?r1) = (None, ?f)"
    by (simp add: marking_hook_def)
  have d: "failing_hook ?f = (Some (Errorf ''boom''), ?f)"
    by (simp add: failing_hook_def)
  from hook_error_aborts [OF a b c d, of "example_env (example_Response [] None)" Nil]
  show ?thesis by (simp add: SetBody_def)
qed

subsection \<open>C9: an empty response body\<close>

text \<open>
  Claim C9, as amended: for a result target that is not the \<^verbatim>\<open>nil\<close> interface and a
  response body that is read without error and is empty, the result target is left as
  it was; the call returns no error when closing the response body returns none, and
  otherwise the error of the deferred function, which wraps the error of \<^verbatim>\<open>Close\<close>. Here
  \<open>r2\<close> is the record after options and hooks.
\<close>

theorem empty_body_leaves_result:
  assumes "prepare r u opts = Some (None, r2)"
    and "NewRequestWithContext E (method_f r2) (url r2) = None"
    and "client_Do E (tLSClientConfig r2) (timeout r2) (build_request r2) = Inr resp"
    and "read_err (resp_Body resp) = None"
    and "content (resp_Body resp) = []"
    and "res \<noteq> Nil"
  shows "\<exists>out. request E r u res opts = Some out \<and> target out = res \<and>
           err out = (case close_err (resp_Body resp) of
                        None \<Rightarrow> None
                      | Some closeErr \<Rightarrow> Some (Wrapf ''resp body close err,  '' closeErr))"
proof -
  have rr: "read_result E [] (b\<lparr>content := []\<rparr>) res = (None, res, [Ev_ReadAll])"
    if "read_err b = None" for b :: Body
    using that assms(6) by (simp add: read_result_def ReadAll_def)
  have rr0: "read_result E [] (resp_Body resp) res = (None, res, [Ev_ReadAll])"
    using assms(4,5,6) by (simp add: read_result_def ReadAll_def)
  have "\<exists>cap evs. receive E (response r2) resp res = (None, res, cap, evs)"
    using assms(4,5) rr [OF assms(4)] rr0
    by (cases "response r2") (simp_all add: receive_def ReadAll_def)
  then obtain cap evs where rc: "receive E (response r2) resp res = (None, res, cap, evs)"
    by blast
  have "target (dispatch E r2 res) = res \<and>
        err (dispatch E r2 res) = (case close_err (resp_Body resp) of
                        None \<Rightarrow> None
                      | Some closeErr \<Rightarrow> Some (Wrapf ''resp body close err,  '' closeErr))"
    using assms(2,3) rc by (simp add: dispatch_def close_body_def split: option.splits)
  then show ?thesis
    using request_dispatch [OF assms(1), of E res] by simp
qed

text \<open>
  The theorem at a \<open>Get\<close> on a new client that is answered with an empty body.
\<close>

theorem empty_body_leaves_result_witness:
  "map_option target
     (Get (example_env (example_Response [] None)) New ''http://x/a'' (Pointer True (String_val ''old'')) [])
     = Some (Pointer True (String_val ''old'')) \<and>
   map_option err
     (Get (example_env (example_Response [] None)) New ''http://x/a'' (Pointer True (String_val ''old'')) [])
     = Some None"
proof -
  let ?resp = "example_Response [] None"
  let ?E = "example_env ?resp"
  let ?r2 = "(New :: string parameter)\<lparr>url := ''http://x/a'', method_f := MethodGet,
                        beforeRequest := [Get_hook ?E ''http://x/a'']\<rparr>"
  let ?res = "Pointer True (String_val ''old'') :: string result"
  have b: "NewRequestWithContext ?E (method_f ?r2) (url ?r2) = None"
    and c: "client_Do ?E (tLSClientConfig ?r2) (timeout ?r2) (build_request ?r2) = Inr ?resp"
    by (simp_all add: example_env_def)
  have d: "read_err (resp_Body ?resp) = None" and e: "content (resp_Body ?resp) = []"
    and g: "close_err (resp_Body ?resp) = None"
    by (simp_all add: example_Response_def)
  have f: "?res \<noteq> Nil" by simp
  from empty_body_leaves_result [OF example_prepare_Get b c d e f]
  show ?thesis by (auto simp: Get_def g)
qed

text \<open>
  Claim C9 as stated fails when closing the response body fails: the call returns an
  error.
\<close>

theorem close_error_after_empty_body:
  "map_option err
     (Get (example_env (example_Response [] (Some (Errorf ''close failed'')))) New ''http://x/a''
        (Pointer True (String_val ''old'')) [])
     = Some (Some (Wrapf ''resp body close err,  '' (Errorf ''close failed'')))"
  by (simp add: pipeline_defs example_defs)

subsection \<open>C10: the URL of Get comes from its argument\<close>

text \<open>
  Claim C10. The hook of \<open>Get\<close> parses the \<^verbatim>\<open>url\<close> argument of the call, replaces its
  query by the encoding of the parameters of the record, and stores the result as the URL
  of the record, from which the request is built. The URL the record held before plays no
  part: with an option \<open>WithUrl x\<close> of the caller the request has the URL of the argument
  all the same. Here \<open>r0\<close> is the record after the options of the caller and \<open>f\<close> the
  record after the hooks registered before the one of the call, on a new client or on
  one that has served calls before.
\<close>

theorem Get_url_from_argument:
  assumes "withOpt r (WithUrl u # opts) = Some r0"
    and "run_hooks (beforeRequest r0) (fields_of (r0\<lparr>method_f := MethodGet\<rparr>)) = (None, f)"
    and "url_Parse E u = Inr netUrl"
  shows "(\<exists>r'. Get E r u res opts = Some (dispatch E r' res) \<and>
               url r' = URL_String E (netUrl\<lparr>RawQuery := Values_Encode (query_values E (param f))\<rparr>)) \<and>
         (\<forall>x f'. run_hooks (beforeRequest r0) (fields_of (r0\<lparr>url := x, method_f := MethodGet\<rparr>))
                    = (None, f') \<longrightarrow>
            (\<exists>r'. Get E r u res (opts @ [WithUrl x]) = Some (dispatch E r' res) \<and>
                  url r' = URL_String E (netUrl\<lparr>RawQuery :=
                             Values_Encode (query_values E (param f'))\<rparr>)))"
proof -
  have one: "\<exists>r'. Get E r u res opts = Some (dispatch E r' res) \<and>
               url r' = URL_String E (netUrl\<lparr>RawQuery := Values_Encode (query_values E (param f))\<rparr>)"
    using Get_after_options [OF assms(1,2,3), of res]
    by (intro exI conjI, assumption) simp
  have two: "\<exists>r'. Get E r u res (opts @ [WithUrl x]) = Some (dispatch E r' res) \<and>
               url r' = URL_String E (netUrl\<lparr>RawQuery := Values_Encode (query_values E (param f'))\<rparr>)"
    if b: "run_hooks (beforeRequest r0) (fields_of (r0\<lparr>url := x, method_f := MethodGet\<rparr>)) = (None, f')"
    for x f'
  proof -
    let ?rx = "r0\<lparr>url := x\<rparr>"
    have ox: "withOpt r (WithUrl u # opts @ [WithUrl x]) = Some ?rx"
      using assms(1) withOpt_append [of r "WithUrl u # opts" "[WithUrl x]"]
      by (simp add: WithUrl_def)
    have bx: "run_hooks (beforeRequest ?rx) (fields_of (?rx\<lparr>method_f := MethodGet\<rparr>)) = (None, f')"
      using b by simp
    show ?thesis
      using Get_after_options [OF ox bx assms(3), of res]
      by (intro exI conjI, assumption) simp
  qed
  show ?thesis using one two by blast
qed

text \<open>
  The theorem at a \<open>Get\<close> of \<^verbatim>\<open>http://x/a?old=1\<close> on a new client with the parameter \<^verbatim>\<open>q\<close>,
  \<^verbatim>\<open>1\<close> and the option \<open>WithUrl ''http://other/z''\<close> of the caller, and at a \<open>Get\<close> of
  \<^verbatim>\<open>http://x/b?old=1\<close> on a client that has served a \<open>Get\<close> of \<^verbatim>\<open>http://x/a\<close> before: the
  requests go to \<^verbatim>\<open>http://x/a?q=1\<close> and to \<^verbatim>\<open>http://x/b?q=1\<close>.
\<close>

theorem Get_url_from_argument_witness:
  "(\<exists>r'. Get (example_env (example_Response [] None)) New ''http://x/a?old=1'' Nil
            [WithParam (Some [(''q'', ''1'')]), WithUrl ''http://other/z'']
          = Some (dispatch (example_env (example_Response [] None)) r' Nil) \<and>
         url r' = ''http://x/a?q=1'') \<and>
   (\<exists>r'. Get (example_env (example_Response [] None))
            (New\<lparr>url := ''http://x/a'',
                 beforeRequest := [Get_hook (example_env (example_Response [] None)) ''http://x/a'']\<rparr>)
            ''http://x/b?old=1'' Nil [WithParam (Some [(''q'', ''1'')])]
          = Some (dispatch (example_env (example_Response [] None)) r' Nil) \<and>
         url r' = ''http://x/b?q=1'')"
proof -
  let ?E = "example_env (example_Response [] None)"
  let ?opts = "[WithParam (Some [(''q'', ''1'')])] :: string optionFunc list"
  \<comment> \<open>a new client, and an option of the caller for the URL\<close>
  let ?r0 = "(New :: string parameter)\<lparr>url := ''http://x/a?old=1'', param := Some [(''q'', ''1'')]\<rparr>"
  let ?u = "\<lparr>Scheme = ''http'', Host = ''x'', Path = ''/a'', ForceQuery = False,
             RawQuery = ''old=1'', Fragment = []\<rparr>"
  have a: "withOpt New (WithUrl ''http://x/a?old=1'' # ?opts) = Some ?r0"
    by (simp add: WithUrl_def WithParam_def assign_all_def New_def)
  have b: "run_hooks (beforeRequest ?r0) (fields_of (?r0\<lparr>method_f := MethodGet\<rparr>))
             = (None, fields_of (?r0\<lparr>method_f := MethodGet\<rparr>))"
    by (simp add: New_def)
  have bx: "run_hooks (beforeRequest ?r0) (fields_of (?r0\<lparr>url := ''http://other/z'', method_f := MethodGet\<rparr>))
             = (None, fields_of (?r0\<lparr>url := ''http://other/z'', method_f := MethodGet\<rparr>))"
    by (simp add: New_def)
  have d: "url_Parse ?E ''http://x/a?old=1'' = Inr ?u"
    by (simp add: example_defs)
  have e: "URL_String ?E (?u\<lparr>RawQuery := Values_Encode (query_values ?E (Some [(''q'', ''1'')]))\<rparr>)
            = ''http://x/a?q=1''"
    by (simp add: example_defs query_values_def Values_Encode_def write_pair_def QueryEscape_def
          escape_byte_def shouldEscape_def isAlnum_def upperhex_def)
  have one: "\<exists>r'. Get ?E New ''http://x/a?old=1'' Nil (?opts @ [WithUrl ''http://other/z''])
                = Some (dispatch ?E r' Nil) \<and> url r' = ''http://x/a?q=1''"
    using Get_url_from_argument [OF a b d, of Nil] bx unfolding e [symmetric] by fastforce
  \<comment> \<open>the client after a call of Get\<close>
  let ?r1 = "(New :: string parameter)\<lparr>url := ''http://x/a'', beforeRequest := [Get_hook ?E ''http://x/a'']\<rparr>"
  let ?q0 = "?r1\<lparr>url := ''http://x/b?old=1'', param := Some [(''q'', ''1'')]\<rparr>"
  let ?v = "\<lparr>Scheme = ''http'', Host = ''x'', Path = ''/b'', ForceQuery = False,
             RawQuery = ''old=1'', Fragment = []\<rparr>"
  have a2: "withOpt ?r1 (WithUrl ''http://x/b?old=1'' # ?opts) = Some ?q0"
    by (simp add: WithUrl_def WithParam_def assign_all_def New_def)
  obtain g where b2: "run_hooks (beforeRequest ?q0) (fields_of (?q0\<lparr>method_f := MethodGet\<rparr>)) = (None, g)"
    and pg: "param g = Some [(''q'', ''1'')]"
    by (simp add: New_def Get_hook_def rewrite_url_def example_defs)
  have d2: "url_Parse ?E ''http://x/b?old=1'' = Inr ?v"
    by (simp add: example_defs)
  have e2: "URL_String ?E (?v\<lparr>RawQuery := Values_Encode (query_values ?E (Some [(''q'', ''1'')]))\<rparr>)
            = ''http://x/b?q=1''"
    by (simp add: example_defs query_values_def Values_Encode_def write_pair_def QueryEscape_def
          escape_byte_def shouldEscape_def isAlnum_def upperhex_def)
  have two: "\<exists>r'. Get ?E ?r1 ''http://x/b?old=1'' Nil ?opts = Some (dispatch ?E r' Nil) \<and>
                url r' = ''http://x/b?q=1''"
    using Get_url_from_argument [OF a2 b2 d2, of Nil] unfolding pg e2 by blast
  from one two show ?thesis by simp
qed

end
